theory Spec2Isabelle
  imports Main "HOL-Library.Sublist"
begin

section \<open>Switchboard: the listener client and the Unreal device\<close>

text \<open>
  A shallow embedding of \<^verbatim>\<open>switchboard/listener_client.py\<close> (class
  \<^verbatim>\<open>ListenerClient\<close>) and of \<^verbatim>\<open>switchboard/devices/unreal/plugin_unreal.py\<close>
  (class \<^verbatim>\<open>DeviceUnreal\<close> and \<^verbatim>\<open>parse_unreal_tag_file\<close>).

  Python exceptions are values of the type \<open>error\<close>. A method that mutates its object
  takes the object and returns the new one; a method that may raise after it has mutated
  the object returns an \<open>outcome\<close>, which keeps the state reached when the exception
  left the method. Python strings are \<open>string\<close>: a \<open>char\<close> stands for a code point
  below 256.
\<close>

subsection \<open>Python exceptions\<close>

datatype error =
    KeyError
  | AttributeError
  | IndexError
  | ValueError
  | OSError
  | ConnectionResetError
  | OverflowError
  | TypeError

text \<open>
  \<^verbatim>\<open>except OSError\<close> catches \<^verbatim>\<open>OSError\<close> and its subclasses, of which
  \<^verbatim>\<open>ConnectionResetError\<close> is one.
\<close>

definition is_OSError :: "error \<Rightarrow> bool" where
  "is_OSError e = (e = OSError \<or> e = ConnectionResetError)"

subsection \<open>Python string methods used by the source\<close>

text \<open>\<^verbatim>\<open>str.startswith(prefix)\<close>.\<close>

definition py_startswith :: "string \<Rightarrow> string \<Rightarrow> bool" where
  "py_startswith s p = (take (length p) s = p)"

text \<open>\<^verbatim>\<open>str.endswith(suffix)\<close>.\<close>

definition py_endswith :: "string \<Rightarrow> string \<Rightarrow> bool" where
  "py_endswith s p = (length p \<le> length s \<and> drop (length s - length p) s = p)"

text \<open>
  \<^verbatim>\<open>str.split(sep, maxsplit)\<close> for a non-empty separator: the string is cut at the
  occurrences of \<open>sep\<close> found from left to right, without overlap, at most \<open>maxsplit\<close>
  times; a negative \<open>maxsplit\<close> (Python's default \<open>-1\<close>) sets no limit. \<open>acc\<close> is the
  piece being read. The source passes only the literals \<^verbatim>\<open>"Tag="\<close> and \<^verbatim>\<open>','\<close>, so the
  \<^verbatim>\<open>ValueError\<close> of an empty separator cannot arise; an empty \<open>sep\<close> cuts nowhere here.
\<close>

function py_split_from :: "string \<Rightarrow> int \<Rightarrow> string \<Rightarrow> string \<Rightarrow> string list" where
  "py_split_from sep maxsplit acc [] = [acc]"
| "py_split_from sep maxsplit acc (c # cs) =
     (if maxsplit \<noteq> 0 \<and> sep \<noteq> [] \<and> take (length sep) (c # cs) = sep
      then acc # py_split_from sep (maxsplit - 1) [] (drop (length sep) (c # cs))
      else py_split_from sep maxsplit (acc @ [c]) cs)"
  by pat_completeness auto
termination
  by (relation "measure (\<lambda>(sep, maxsplit, acc, s). length s)") auto

definition py_split :: "string \<Rightarrow> string \<Rightarrow> int \<Rightarrow> string list" where
  "py_split s sep maxsplit = py_split_from sep maxsplit [] s"

text \<open>\<^verbatim>\<open>xs[i]\<close> for an index \<open>i \<ge> 0\<close>: \<^verbatim>\<open>IndexError\<close> out of range.\<close>

definition py_getitem :: "'a list \<Rightarrow> nat \<Rightarrow> error + 'a" where
  "py_getitem xs i = (if i < length xs then Inr (xs ! i) else Inl IndexError)"

text \<open>\<^verbatim>\<open>str.strip(chars)\<close>: leading and trailing characters of \<open>chars\<close> removed.\<close>

definition py_strip_chars :: "string \<Rightarrow> string \<Rightarrow> string" where
  "py_strip_chars s chars =
     rev (dropWhile (\<lambda>c. c \<in> set chars) (rev (dropWhile (\<lambda>c. c \<in> set chars) s)))"

text \<open>
  \<^verbatim>\<open>str.isspace\<close> on one character, for code points below 256: tab, line feed,
  vertical tab, form feed, carriage return, the separators \<open>0x1c\<close> to \<open>0x1f\<close>, space,
  \<open>0x85\<close> and \<open>0xa0\<close>.
\<close>

definition py_isspace :: "char \<Rightarrow> bool" where
  "py_isspace c =
     (c \<in> {CHR 0x09, CHR 0x0A, CHR 0x0B, CHR 0x0C, CHR 0x0D,
           CHR 0x1C, CHR 0x1D, CHR 0x1E, CHR 0x1F, CHR 0x20, CHR 0x85, CHR 0xA0})"

text \<open>\<^verbatim>\<open>str.strip()\<close>: leading and trailing whitespace removed.\<close>

definition py_strip :: "string \<Rightarrow> string" where
  "py_strip s = rev (dropWhile py_isspace (rev (dropWhile py_isspace s)))"

text \<open>
  \<^verbatim>\<open>str.split()\<close> without a separator: the maximal runs of characters that are not
  whitespace, in order; \<open>acc\<close> is the run being read.
\<close>

fun py_split_ws_from :: "string \<Rightarrow> string \<Rightarrow> string list" where
  "py_split_ws_from acc [] = (if acc = [] then [] else [acc])"
| "py_split_ws_from acc (c # cs) =
     (if py_isspace c
      then (if acc = [] then py_split_ws_from [] cs else acc # py_split_ws_from [] cs)
      else py_split_ws_from (acc @ [c]) cs)"

definition py_split_ws :: "string \<Rightarrow> string list" where
  "py_split_ws s = py_split_ws_from [] s"

text \<open>
  \<^verbatim>\<open>str.splitlines()\<close>: the string is cut at line boundaries (line feed, carriage
  return, carriage return followed by line feed as one boundary, vertical tab, form feed,
  \<open>0x1c\<close>, \<open>0x1d\<close>, \<open>0x1e\<close>, \<open>0x85\<close>); the boundaries are dropped and a boundary at the
  very end opens no further line.
\<close>

definition py_linebreak :: "char \<Rightarrow> bool" where
  "py_linebreak c =
     (c \<in> {CHR 0x0A, CHR 0x0D, CHR 0x0B, CHR 0x0C, CHR 0x1C, CHR 0x1D, CHR 0x1E, CHR 0x85})"

function py_splitlines_from :: "string \<Rightarrow> string \<Rightarrow> string list" where
  "py_splitlines_from acc [] = (if acc = [] then [] else [acc])"
| "py_splitlines_from acc (c # cs) =
     (if c = CHR 0x0D \<and> cs \<noteq> [] \<and> hd cs = CHR 0x0A
      then acc # py_splitlines_from [] (tl cs)
      else if py_linebreak c then acc # py_splitlines_from [] cs
      else py_splitlines_from (acc @ [c]) cs)"
  by pat_completeness auto
termination
  by (relation "measure (\<lambda>(acc, s). length s)") auto

definition py_splitlines :: "string \<Rightarrow> string list" where
  "py_splitlines s = py_splitlines_from [] s"

subsection \<open>The logger\<close>

text \<open>
  \<^verbatim>\<open>LOGGER\<close> is a module-level object; what it is asked to write is kept as a list
  of entries, oldest first.
\<close>

datatype level = DEBUG | INFO | MESSAGE | ERROR

type_synonym log = "(level \<times> string) list"

subsection \<open>\<^verbatim>\<open>parse_unreal_tag_file\<close>\<close>

text \<open>
  The loop of \<^verbatim>\<open>parse_unreal_tag_file\<close> over the remaining lines, with the list
  \<open>tags\<close> built so far and the log written so far. \<^verbatim>\<open>line.split("Tag=")[1]\<close> raises
  \<^verbatim>\<open>IndexError\<close> when the split has a single piece; the exception leaves the function.
\<close>

fun parse_unreal_tag_file_loop :: "string list \<Rightarrow> string list \<Rightarrow> log \<Rightarrow> log \<times> (error + string list)" where
  "parse_unreal_tag_file_loop [] tags lg = (lg, Inr tags)"
| "parse_unreal_tag_file_loop (line # rest) tags lg =
     (let lg1 = lg @ [(INFO, line)] in
      if py_startswith line ''GameplayTagList'' then
        (case py_getitem (py_split line ''Tag='' (- 1)) 1 of
           Inl e \<Rightarrow> (lg1, Inl e)
         | Inr tag1 \<Rightarrow>
            (case py_getitem (py_split tag1 '','' 1) 0 of
               Inl e \<Rightarrow> (lg1, Inl e)
             | Inr tag2 \<Rightarrow>
                parse_unreal_tag_file_loop rest (tags @ [py_strip_chars tag2 [CHR 0x22]]) lg1))
      else parse_unreal_tag_file_loop rest tags lg1)"

definition parse_unreal_tag_file :: "string list \<Rightarrow> log \<times> (error + string list)" where
  "parse_unreal_tag_file file_content = parse_unreal_tag_file_loop file_content [] []"

subsection \<open>Values the source formats into its messages\<close>

text \<open>\<^verbatim>\<open>str(n)\<close> for an integer: the decimal digits, with a minus sign when negative.\<close>

function py_str_nat :: "nat \<Rightarrow> string" where
  "py_str_nat n =
     (if n < 10 then [''0123456789'' ! n]
      else py_str_nat (n div 10) @ [''0123456789'' ! (n mod 10)])"
  by pat_completeness auto
termination
  by (relation "measure (\<lambda>n. n)") auto

definition py_str_int :: "int \<Rightarrow> string" where
  "py_str_int i = (if i < 0 then ''-'' @ py_str_nat (nat (- i)) else py_str_nat (nat i))"

text \<open>\<^verbatim>\<open>str(x)\<close> for a value that is a string or \<^verbatim>\<open>None\<close>.\<close>

definition py_str_opt :: "string option \<Rightarrow> string" where
  "py_str_opt x = (case x of None \<Rightarrow> ''None'' | Some s \<Rightarrow> s)"

text \<open>
  A changelist is what the caller of \<^verbatim>\<open>sync\<close> passed (a number or a string), the
  integer \<open>0\<close> of the constructor, or a token of the output of \<^verbatim>\<open>p4 cstat\<close>.
\<close>

datatype pyval = PyNone | PyInt int | PyStr string

text \<open>
  A \<^verbatim>\<open>uuid.UUID\<close> is its 128-bit integer; encoded messages are byte strings; the
  clock of \<^verbatim>\<open>datetime.datetime.now()\<close> counts microseconds.
\<close>

type_synonym uuid = nat
type_synonym bytes = string
type_synonym datetime = int

subsection \<open>What lies outside the two source files\<close>

text \<open>
  A decoded message is a Python dictionary. Its keys are those \<^verbatim>\<open>route_message\<close>
  reads, each present or absent, with the value types of the wire protocol.
\<close>

record message =
  m_command :: "string option"
  m_command_accepted :: "bool option"
  m_id :: "string option"
  m_error :: "string option"
  m_program_started :: "bool option"
  m_message_id :: "string option"
  m_program_id :: "string option"
  m_program_ended :: "bool option"
  m_returncode :: "int option"
  m_output :: "string option"
  m_program_killed :: "bool option"
  m_vcs_init_complete :: "bool option"
  m_vcs_report_revision_complete :: "bool option"
  m_revision :: "string option"
  m_vcs_sync_complete :: "bool option"
  m_send_file_complete :: "bool option"
  m_destination :: "string option"
  m_receive_file_complete :: "bool option"
  m_source :: "string option"
  m_content :: "string option"

text \<open>
  The modules \<^verbatim>\<open>message_protocol\<close> and \<^verbatim>\<open>config\<close> and the standard library are not
  part of the two files. What the source calls in them is a parameter of the model:
  the codec (\<^verbatim>\<open>create_start_process_message\<close> returns the message id and the bytes),
  \<^verbatim>\<open>uuid.UUID\<close> and the text of a UUID, of a byte string and of a list in an f-string,
  \<^verbatim>\<open>base64.b64decode(..).decode()\<close>, \<^verbatim>\<open>os.path\<close>, and the settings read with
  \<^verbatim>\<open>get_value(self.name)\<close>.
\<close>

record env =
  create_start_process_message :: "string \<Rightarrow> string \<Rightarrow> uuid \<times> bytes"
  create_kill_process_message :: "uuid \<Rightarrow> uuid \<times> bytes"
  decode_message :: "string \<Rightarrow> error + message"
  UUID :: "string \<Rightarrow> error + uuid"
  str_uuid :: "uuid \<Rightarrow> string"
  str_bytes :: "bytes \<Rightarrow> string"
  b64decode :: "string \<Rightarrow> error + string"
  os_path_join :: "string list \<Rightarrow> string"
  os_path_basename :: "string \<Rightarrow> string"
  os_path_dirname :: "string \<Rightarrow> string"
  ENGINE_DIR :: "string \<Rightarrow> string"
  UPROJECT_PATH :: "string \<Rightarrow> string"
  setting_roles_filename :: "string \<Rightarrow> string"
  str_list :: "string list \<Rightarrow> string"

text \<open>\<^verbatim>\<open>d[key]\<close> on a dictionary: \<^verbatim>\<open>KeyError\<close> when the key is absent.\<close>

definition py_item :: "'a option \<Rightarrow> error + 'a" where
  "py_item x = (case x of None \<Rightarrow> Inl KeyError | Some v \<Rightarrow> Inr v)"

subsection \<open>\<^verbatim>\<open>ListenerClient\<close>\<close>

text \<open>
  A socket object answers \<^verbatim>\<open>getpeername()\<close> with the peer's address, or raises
  \<^verbatim>\<open>OSError\<close> (\<open>None\<close> here) when it is not connected.
\<close>

datatype socket = Socket (getpeername: "(string \<times> int) option")

text \<open>
  The fields of \<^verbatim>\<open>ListenerClient\<close>. The deque \<open>message_queue\<close> is a list whose head is
  the left end. \<open>handle_connection_thread\<close> holds the thread object, written as the number
  of the worker it is. Two fields are not in the source and record effects on the world:
  \<open>threads_started\<close> counts the calls of \<^verbatim>\<open>Thread.start\<close> and \<open>transmitted\<close> lists what
  was handed to \<^verbatim>\<open>ws.send\<close>, oldest first. The delegate slots are not fields: a method
  returns the slot it calls, and the owner of the client runs it.
\<close>

record ListenerClient =
  ip_address :: "string option"
  port :: int
  buffer_size :: int
  message_queue :: "bytes list"
  close_socket :: bool
  socket :: "socket option"
  handle_connection_thread :: "nat option"
  last_activity :: datetime
  threads_started :: nat
  transmitted :: "bytes list"

text \<open>The truth value of a string or \<^verbatim>\<open>None\<close>: false for \<^verbatim>\<open>None\<close> and for \<^verbatim>\<open>""\<close>.\<close>

definition py_truthy :: "string option \<Rightarrow> bool" where
  "py_truthy x = (case x of None \<Rightarrow> False | Some s \<Rightarrow> s \<noteq> [])"

definition server_address :: "ListenerClient \<Rightarrow> (string \<times> int) option" where
  "server_address c =
     (if py_truthy (ip_address c) then Some (the (ip_address c), port c) else None)"

text \<open>
  \<^verbatim>\<open>is_connected\<close>: a socket object is always true, an address is a non-empty tuple,
  and the \<^verbatim>\<open>OSError\<close> of \<^verbatim>\<open>getpeername\<close> is caught.
\<close>

definition is_connected :: "ListenerClient \<Rightarrow> bool" where
  "is_connected c =
     (case socket c of
        None \<Rightarrow> False
      | Some s \<Rightarrow> (case getpeername s of None \<Rightarrow> False | Some a \<Rightarrow> True))"

text \<open>
  What \<^verbatim>\<open>socket.connect(address)\<close> does: it connects the socket to a peer, whose
  address \<^verbatim>\<open>getpeername\<close> then answers, or it raises an exception. The exception is an
  \<^verbatim>\<open>OSError\<close> when the name does not resolve or the peer cannot be reached; it is not
  one when the address itself is refused, as \<^verbatim>\<open>OverflowError\<close> for a port outside
  \<open>0..65535\<close> on a host that resolves, or \<^verbatim>\<open>TypeError\<close> for a host name with a null
  character.
\<close>

datatype connect_result = Connects "string \<times> int" | Raises error

text \<open>
  \<^verbatim>\<open>connect\<close>. \<open>os_connect\<close> is the network: what \<^verbatim>\<open>socket.connect\<close> does at an
  address; \<open>now\<close> is the clock. The result is the returned boolean or the exception that
  leaves the method, the client, and what was logged. Past the guard the stored address
  is not empty, so \<^verbatim>\<open>self.server_address\<close> is an address. \<^verbatim>\<open>self.socket\<close> is assigned
  the new socket object before \<^verbatim>\<open>socket.connect\<close> is called; \<^verbatim>\<open>except OSError\<close> sets it
  to \<^verbatim>\<open>None\<close>, and any other exception leaves the method with the unconnected socket
  object in place and no thread started. Creating the socket object and starting the
  thread are taken to succeed.
\<close>

definition connect :: "((string \<times> int) \<Rightarrow> connect_result) \<Rightarrow> datetime \<Rightarrow> ListenerClient
    \<Rightarrow> string option \<Rightarrow> (error + bool) \<times> ListenerClient \<times> log" where
  "connect os_connect now c ip_address_arg =
     (if \<not> py_truthy ip_address_arg \<and> \<not> py_truthy (ip_address c)
      then (Inr False, c, [(DEBUG, ''No ip_address was given. Cannot connect'')])
      else
        let c1 = (if py_truthy ip_address_arg then c\<lparr>ip_address := ip_address_arg\<rparr> else c);
            c2 = c1\<lparr>close_socket := False, last_activity := now\<rparr>;
            lg = [(INFO, ''Connecting to '' @ the (ip_address c2) @ '':'' @ py_str_int (port c2))];
            c3 = c2\<lparr>socket := Some (Socket None)\<rparr>
        in case os_connect (the (server_address c3)) of
             Connects peer \<Rightarrow>
               (Inr True,
                c3\<lparr>socket := Some (Socket (Some peer)),
                   handle_connection_thread := Some (threads_started c3),
                   threads_started := Suc (threads_started c3)\<rparr>,
                lg)
           | Raises e \<Rightarrow>
               if is_OSError e
               then (Inr False,
                     c3\<lparr>socket := None\<rparr>,
                     lg @ [(ERROR, ''Socket Error: '' @ the (ip_address c3) @ '':''
                                   @ py_str_int (port c3))])
               else (Inl e, c3, lg))"

text \<open>
  \<^verbatim>\<open>send_message\<close>: \<^verbatim>\<open>appendleft\<close> when connected. The result is the client, what was
  logged, and whether the disconnect delegate is called (with \<^verbatim>\<open>unexpected=True\<close>).
\<close>

definition send_message :: "env \<Rightarrow> ListenerClient \<Rightarrow> bytes \<Rightarrow> ListenerClient \<times> log \<times> bool" where
  "send_message E c message_bytes =
     (if is_connected c
      then (c\<lparr>message_queue := message_bytes # message_queue c\<rparr>,
            [(MESSAGE, ''Message: Sending ('' @ py_str_opt (ip_address c) @ ''): '' @ str_bytes E message_bytes)],
            False)
      else (c,
            [(ERROR, ''Message: Failed to send ('' @ py_str_opt (ip_address c) @ ''): '' @ str_bytes E message_bytes
                     @ ''. No socket connected'')],
            True))"

text \<open>
  The sending part of one iteration of the loop of \<^verbatim>\<open>handle_connection\<close> (the lines from
  \<^verbatim>\<open>if len(self.message_queue) > 0\<close> to the end of the \<^verbatim>\<open>for ws\<close> loop). \<open>writable\<close> says
  whether \<^verbatim>\<open>select\<close> returned the socket as writable: \<^verbatim>\<open>write_sockets\<close> is then the one
  socket, and is empty otherwise. \<^verbatim>\<open>pop()\<close> takes the message at the right end of the
  deque, whether or not a socket is writable.
\<close>

definition handle_connection_send :: "bool \<Rightarrow> datetime \<Rightarrow> ListenerClient \<Rightarrow> ListenerClient" where
  "handle_connection_send writable now c =
     (if length (message_queue c) > 0
      then
        let message_bytes = last (message_queue c);
            c1 = c\<lparr>message_queue := butlast (message_queue c)\<rparr>
        in if writable
           then c1\<lparr>transmitted := transmitted c1 @ [message_bytes], last_activity := now\<rparr>
           else c1
      else c)"

text \<open>
  The delegate slots of \<^verbatim>\<open>ListenerClient\<close>. The constructor sets them all to
  \<^verbatim>\<open>None\<close> and the owner of the client fills some of them; \<open>slots\<close> below says which
  are filled. A call of a slot is the slot's name with its arguments.
\<close>

datatype slot =
    disconnect_delegate
  | command_accepted_delegate
  | command_declined_delegate
  | program_started_delegate
  | program_start_failed_delegate
  | program_ended_delegate
  | program_killed_delegate
  | program_kill_failed_delegate
  | vcs_init_completed_delegate
  | vcs_init_failed_delegate
  | vcs_report_revision_completed_delegate
  | vcs_report_revision_failed_delegate
  | vcs_sync_completed_delegate
  | vcs_sync_failed_delegate
  | send_file_completed_delegate
  | send_file_failed_delegate
  | receive_file_completed_delegate
  | receive_file_failed_delegate

datatype delegate_call =
    call_disconnect bool "error option"
  | call_command_accepted uuid
  | call_command_declined uuid string
  | call_program_started uuid uuid
  | call_program_start_failed string uuid
  | call_program_ended uuid int string
  | call_program_killed uuid
  | call_program_kill_failed uuid string
  | call_vcs_init_completed
  | call_vcs_init_failed string
  | call_vcs_report_revision_completed string
  | call_vcs_report_revision_failed string
  | call_vcs_sync_completed string
  | call_vcs_sync_failed string
  | call_send_file_completed string
  | call_send_file_failed string string
  | call_receive_file_completed string string
  | call_receive_file_failed string string

text \<open>Sequencing of computations that may raise.\<close>

definition bind_err :: "error + 'a \<Rightarrow> ('a \<Rightarrow> error + 'b) \<Rightarrow> error + 'b" where
  "bind_err r f = (case r of Inl e \<Rightarrow> Inl e | Inr v \<Rightarrow> f v)"

text \<open>
  \<^verbatim>\<open>route_message\<close>: the call it makes, or \<open>None\<close> when the slot it reaches is empty.
  The dictionary \<^verbatim>\<open>self.delegates\<close> holds \<^verbatim>\<open>None\<close> under both of its keys and is never
  assigned to, so \<^verbatim>\<open>delegate\<close> is always \<^verbatim>\<open>None\<close>; reading \<^verbatim>\<open>message['command']\<close>
  still raises \<^verbatim>\<open>KeyError\<close> when the key is absent. The branches are tried in the order
  of the source, by the presence of a key, and an argument is read where the source reads
  it: before or after the test of the slot.
\<close>

definition route_message :: "env \<Rightarrow> (slot \<Rightarrow> bool) \<Rightarrow> message \<Rightarrow> error + delegate_call option" where
  "route_message E slots message =
     bind_err (py_item (m_command message)) (\<lambda>command.
     if m_command_accepted message \<noteq> None then
       bind_err (py_item (m_id message)) (\<lambda>id_str.
       bind_err (UUID E id_str) (\<lambda>message_id.
       if m_command_accepted message = Some True then
         (if slots command_accepted_delegate
          then Inr (Some (call_command_accepted message_id)) else Inr None)
       else
         (if slots command_declined_delegate
          then bind_err (py_item (m_error message)) (\<lambda>err.
               Inr (Some (call_command_declined message_id err)))
          else Inr None)))
     else if m_program_started message \<noteq> None then
       bind_err (py_item (m_message_id message)) (\<lambda>id_str.
       bind_err (UUID E id_str) (\<lambda>message_id.
       if m_program_started message = Some True then
         bind_err (py_item (m_program_id message)) (\<lambda>pid_str.
         bind_err (UUID E pid_str) (\<lambda>program_id.
         if slots program_started_delegate
         then Inr (Some (call_program_started program_id message_id)) else Inr None))
       else
         (if slots program_start_failed_delegate
          then bind_err (py_item (m_error message)) (\<lambda>err.
               Inr (Some (call_program_start_failed err message_id)))
          else Inr None)))
     else if m_program_ended message \<noteq> None then
       bind_err (py_item (m_program_id message)) (\<lambda>pid_str.
       bind_err (UUID E pid_str) (\<lambda>program_id.
       if slots program_ended_delegate
       then bind_err (py_item (m_returncode message)) (\<lambda>returncode.
            bind_err (py_item (m_output message)) (\<lambda>output.
            Inr (Some (call_program_ended program_id returncode output))))
       else Inr None))
     else if m_program_killed message \<noteq> None then
       bind_err (py_item (m_program_id message)) (\<lambda>pid_str.
       bind_err (UUID E pid_str) (\<lambda>program_id.
       if m_program_killed message = Some True then
         (if slots program_killed_delegate
          then Inr (Some (call_program_killed program_id)) else Inr None)
       else
         (if slots program_kill_failed_delegate
          then bind_err (py_item (m_error message)) (\<lambda>err.
               Inr (Some (call_program_kill_failed program_id err)))
          else Inr None)))
     else if m_vcs_init_complete message \<noteq> None then
       (if m_vcs_init_complete message = Some True then
          (if slots vcs_init_completed_delegate
           then Inr (Some call_vcs_init_completed) else Inr None)
        else
          (if slots vcs_init_failed_delegate
           then bind_err (py_item (m_error message)) (\<lambda>err. Inr (Some (call_vcs_init_failed err)))
           else Inr None))
     else if m_vcs_report_revision_complete message \<noteq> None then
       (if m_vcs_report_revision_complete message = Some True then
          (if slots vcs_report_revision_completed_delegate
           then bind_err (py_item (m_revision message)) (\<lambda>rev.
                Inr (Some (call_vcs_report_revision_completed rev)))
           else Inr None)
        else
          (if slots vcs_report_revision_failed_delegate
           then bind_err (py_item (m_error message)) (\<lambda>err.
                Inr (Some (call_vcs_report_revision_failed err)))
           else Inr None))
     else if m_vcs_sync_complete message \<noteq> None then
       (if m_vcs_sync_complete message = Some True then
          (if slots vcs_sync_completed_delegate
           then bind_err (py_item (m_revision message)) (\<lambda>rev.
                Inr (Some (call_vcs_sync_completed rev)))
           else Inr None)
        else
          (if slots vcs_sync_failed_delegate
           then bind_err (py_item (m_error message)) (\<lambda>err. Inr (Some (call_vcs_sync_failed err)))
           else Inr None))
     else if m_send_file_complete message \<noteq> None then
       (if m_send_file_complete message = Some True then
          (if slots send_file_completed_delegate
           then bind_err (py_item (m_destination message)) (\<lambda>dst.
                Inr (Some (call_send_file_completed dst)))
           else Inr None)
        else
          (if slots send_file_failed_delegate
           then bind_err (py_item (m_destination message)) (\<lambda>dst.
                bind_err (py_item (m_error message)) (\<lambda>err.
                Inr (Some (call_send_file_failed dst err))))
           else Inr None))
     else if m_receive_file_complete message \<noteq> None then
       (if m_receive_file_complete message = Some True then
          (if slots receive_file_completed_delegate
           then bind_err (py_item (m_source message)) (\<lambda>src.
                bind_err (py_item (m_content message)) (\<lambda>content.
                Inr (Some (call_receive_file_completed src content))))
           else Inr None)
        else
          (if slots receive_file_failed_delegate
           then bind_err (py_item (m_source message)) (\<lambda>src.
                bind_err (py_item (m_error message)) (\<lambda>err.
                Inr (Some (call_receive_file_failed src err))))
           else Inr None))
     else Inl ValueError)"

subsection \<open>\<^verbatim>\<open>DeviceUnreal\<close>\<close>

text \<open>
  Modelled from the spec: the enumeration \<^verbatim>\<open>DeviceStatus\<close> of
  \<^verbatim>\<open>switchboard/devices/device_base.py\<close>, which is not among the source files; the
  members are those the specification lists.
\<close>

datatype DeviceStatus =
    DISCONNECTED | CONNECTING | CONNECTED | SYNCING | BUILDING | OPEN | READY | CLOSED

text \<open>
  What the device emits: the signals of \<^verbatim>\<open>device_qt_handler\<close> and the OSC message of
  \<^verbatim>\<open>send_osc_message(osc.OSC_ADD_SEND_TARGET, ..)\<close>.
\<close>

datatype signal =
    signal_device_connect_failed
  | signal_device_client_disconnected
  | signal_device_sync_failed
  | osc_add_send_target

text \<open>
  The fields of \<^verbatim>\<open>DeviceUnreal\<close> the modelled methods use. \<open>status\<close> and \<open>changelist\<close>
  are properties of the base class \<^verbatim>\<open>Device\<close>, whose setters are not among the source
  files; assigning to them is a field update here. \<open>roles\<close> and \<open>roles_possible_values\<close>
  are the value and the \<^verbatim>\<open>possible_values\<close> of \<^verbatim>\<open>setting_roles\<close>. \<open>logger\<close> is what
  \<^verbatim>\<open>LOGGER\<close> was asked to write and \<open>signals\<close> what was emitted, oldest first.
\<close>

record DeviceUnreal =
  name :: string
  status :: DeviceStatus
  changelist :: pyval
  unreal_client :: ListenerClient
  roles :: "string list"
  roles_possible_values :: "string list"
  start_build_after_sync :: bool
  inflight_changelist :: pyval
  remote_programs_start_queue :: "uuid \<rightharpoonup> string"
  running_remote_program_names :: "uuid \<rightharpoonup> string"
  running_remote_program_ids :: "string \<rightharpoonup> uuid"
  logger :: log
  signals :: "signal list"

text \<open>
  The result of a method that may raise: the device when the method returned, or the
  exception and the device as the method left it.
\<close>

datatype outcome = Returned DeviceUnreal | Raised error DeviceUnreal

fun final :: "outcome \<Rightarrow> DeviceUnreal" where
  "final (Returned d) = d"
| "final (Raised e d) = d"

fun raised :: "outcome \<Rightarrow> error option" where
  "raised (Returned d) = None"
| "raised (Raised e d) = Some e"

definition log_to :: "DeviceUnreal \<Rightarrow> level \<Rightarrow> string \<Rightarrow> DeviceUnreal" where
  "log_to d lv text = d\<lparr>logger := logger d @ [(lv, text)]\<rparr>"

definition emit :: "DeviceUnreal \<Rightarrow> signal \<Rightarrow> DeviceUnreal" where
  "emit d sg = d\<lparr>signals := signals d @ [sg]\<rparr>"

text \<open>The slots \<^verbatim>\<open>DeviceUnreal.__init__\<close> fills.\<close>

definition device_slots :: "slot \<Rightarrow> bool" where
  "device_slots sl =
     (sl \<in> {disconnect_delegate, program_started_delegate, program_start_failed_delegate,
            program_ended_delegate, program_kill_failed_delegate,
            receive_file_completed_delegate, receive_file_failed_delegate})"

definition on_listener_disconnect :: "DeviceUnreal \<Rightarrow> bool \<Rightarrow> error option \<Rightarrow> DeviceUnreal" where
  "on_listener_disconnect d unexpected exception =
     (if unexpected then emit d signal_device_client_disconnected else d)"

text \<open>
  \<^verbatim>\<open>DeviceUnreal.on_setting_ip_address_changed\<close>: the new address is written into
  the client, whether or not the client is connected.
\<close>

definition on_setting_ip_address_changed :: "DeviceUnreal \<Rightarrow> string \<Rightarrow> DeviceUnreal" where
  "on_setting_ip_address_changed d new_address =
     (log_to d INFO (''Updating IP address for ListenerClient to '' @ new_address))
       \<lparr>unreal_client := (unreal_client d)\<lparr>ip_address := Some new_address\<rparr>\<rparr>"

text \<open>
  \<^verbatim>\<open>self.unreal_client.send_message(msg)\<close> from a method of the device: the client's
  method, its log entries, and the disconnect delegate, which is
  \<^verbatim>\<open>on_listener_disconnect\<close>.
\<close>

definition unreal_client_send_message :: "env \<Rightarrow> DeviceUnreal \<Rightarrow> bytes \<Rightarrow> DeviceUnreal" where
  "unreal_client_send_message E d msg =
     (case send_message E (unreal_client d) msg of (c, lg, disconnected) \<Rightarrow>
        let d1 = d\<lparr>unreal_client := c, logger := logger d @ lg\<rparr>
        in if disconnected then on_listener_disconnect d1 True None else d1)"

definition build :: "env \<Rightarrow> DeviceUnreal \<Rightarrow> DeviceUnreal" where
  "build E d =
     (if status d = SYNCING then
        log_to (d\<lparr>start_build_after_sync := True\<rparr>) INFO
          (name d @ '': Build scheduled to start after successful sync operation'')
      else
        let engine_path = ENGINE_DIR E (name d);
            build_tool = os_path_join E [engine_path, ''Binaries'', ''DotNET'', ''UnrealBuildTool''];
            build_args = ''UE4Editor Win64 Development '' @ UPROJECT_PATH E (name d) @ '' -progress'';
            (mid, msg) = create_start_process_message E build_tool build_args;
            d1 = d\<lparr>remote_programs_start_queue := (remote_programs_start_queue d)(mid \<mapsto> ''build'')\<rparr>;
            d2 = log_to d1 INFO
                   (name d @ '': Sending build command: '' @ build_tool @ '' '' @ build_args);
            d3 = unreal_client_send_message E d2 msg
        in d3\<lparr>status := BUILDING\<rparr>)"

text \<open>
  \<^verbatim>\<open>close\<close>: the \<^verbatim>\<open>KeyError\<close> of the lookup is caught and sets the status.
\<close>

definition close :: "env \<Rightarrow> DeviceUnreal \<Rightarrow> bool \<Rightarrow> DeviceUnreal" where
  "close E d force =
     (case running_remote_program_ids d ''unreal'' of
        Some program_id \<Rightarrow>
          (case create_kill_process_message E program_id of (mid, msg) \<Rightarrow>
             unreal_client_send_message E d msg)
      | None \<Rightarrow> d\<lparr>status := CLOSED\<rparr>)"

text \<open>
  \<^verbatim>\<open>on_program_started\<close>: \<^verbatim>\<open>dict.pop(message_id)\<close> raises \<^verbatim>\<open>KeyError\<close> when the
  identifier is not in the start queue.
\<close>

definition on_program_started :: "env \<Rightarrow> DeviceUnreal \<Rightarrow> uuid \<Rightarrow> uuid \<Rightarrow> outcome" where
  "on_program_started E d program_id message_id =
     (case remote_programs_start_queue d message_id of
        None \<Rightarrow> Raised KeyError d
      | Some program_name \<Rightarrow>
          let d1 = d\<lparr>remote_programs_start_queue := (remote_programs_start_queue d)(message_id := None)\<rparr>;
              d2 = log_to d1 INFO
                     (name d @ '': '' @ program_name @ '' with id '' @ str_uuid E program_id
                      @ '' was successfully started'');
              d3 = (if program_name = ''unreal''
                    then emit (d2\<lparr>status := OPEN\<rparr>) osc_add_send_target else d2)
          in Returned
               (d3\<lparr>running_remote_program_names :=
                      (running_remote_program_names d3)(program_id \<mapsto> program_name),
                    running_remote_program_ids :=
                      (running_remote_program_ids d3)(program_name \<mapsto> program_id)\<rparr>))"

definition on_program_start_failed :: "env \<Rightarrow> DeviceUnreal \<Rightarrow> string \<Rightarrow> uuid \<Rightarrow> outcome" where
  "on_program_start_failed E d err message_id =
     (case remote_programs_start_queue d message_id of
        None \<Rightarrow> Raised KeyError d
      | Some program_name \<Rightarrow>
          let d1 = d\<lparr>remote_programs_start_queue := (remote_programs_start_queue d)(message_id := None)\<rparr>;
              d2 = log_to d1 ERROR (''Could not start '' @ program_name @ '': '' @ err)
          in if program_name \<in> {''sync'', ''build''}
             then Returned (d2\<lparr>status := CLOSED, changelist := changelist d2\<rparr>)
             else Returned d2)"

text \<open>\<^verbatim>\<open>for line in output.splitlines()\<close>: one error entry for each line.\<close>

definition log_output_lines :: "DeviceUnreal \<Rightarrow> string \<Rightarrow> DeviceUnreal" where
  "log_output_lines d output =
     d\<lparr>logger := logger d @ map (\<lambda>line. (ERROR, name d @ '': '' @ line)) (py_splitlines output)\<rparr>"

text \<open>
  \<^verbatim>\<open>on_program_ended\<close>. Both \<^verbatim>\<open>pop\<close> calls raise \<^verbatim>\<open>KeyError\<close> on a missing key. In
  the branch of \<^verbatim>\<open>"sync"\<close> the status is set first, \<^verbatim>\<open>build\<close> runs after it, and the
  in-flight changelist is reset last.
\<close>

definition on_program_ended :: "env \<Rightarrow> DeviceUnreal \<Rightarrow> uuid \<Rightarrow> int \<Rightarrow> string \<Rightarrow> outcome" where
  "on_program_ended E d program_id returncode output =
     (let d0 = log_to d INFO
                 (name d @ '': Program with id '' @ str_uuid E program_id
                  @ '' exited with returncode '' @ py_str_int returncode)
      in case running_remote_program_names d0 program_id of
        None \<Rightarrow> Raised KeyError d0
      | Some program_name \<Rightarrow>
         (let d1 = d0\<lparr>running_remote_program_names :=
                        (running_remote_program_names d0)(program_id := None)\<rparr>
          in case running_remote_program_ids d1 program_name of
            None \<Rightarrow> Raised KeyError d1
          | Some registered_id \<Rightarrow>
              let d2 = d1\<lparr>running_remote_program_ids :=
                            (running_remote_program_ids d1)(program_name := None)\<rparr>
              in if program_name = ''unreal'' then Returned (d2\<lparr>status := CLOSED\<rparr>)
                 else if program_name = ''sync'' then
                   let d3 = d2\<lparr>status := CLOSED\<rparr>;
                       d4 = (if returncode \<noteq> 0 then
                               emit (log_output_lines
                                       (log_to d3 ERROR (name d @ '': Project was not synced successfully!''))
                                       output)
                                    signal_device_sync_failed
                             else
                               let d5 = log_to d3 INFO (name d @ '': Project was synced successfully'');
                                   d6 = d5\<lparr>changelist := inflight_changelist d5\<rparr>
                               in if start_build_after_sync d6
                                  then build E (d6\<lparr>start_build_after_sync := False\<rparr>)
                                  else d6)
                   in Returned (d4\<lparr>inflight_changelist := PyInt 0\<rparr>)
                 else if program_name = ''build'' then
                   let d3 = (if returncode = 0
                             then log_to d2 INFO (name d @ '': Project was built successfully!'')
                             else log_output_lines
                                    (log_to d2 ERROR (name d @ '': Project was not built successfully!''))
                                    output)
                   in Returned (d3\<lparr>status := CLOSED, changelist := changelist d3\<rparr>)
                 else if program_name = ''cstat'' then
                   let changelists = map py_strip (py_split_ws output)
                   in if changelists \<noteq> [] then
                        let current_changelist = last changelists;
                            project_name = os_path_basename E (os_path_dirname E (UPROJECT_PATH E (name d)));
                            d3 = log_to d2 INFO
                                   (name d @ '': Project '' @ project_name @ '' is on revision ''
                                    @ current_changelist)
                        in Returned (d3\<lparr>changelist := PyStr current_changelist\<rparr>)
                      else
                        Returned (log_to d2 ERROR
                          (name d @ '': Could not retrieve changelists for project. ''
                           @ ''Are the Source Control Settings correctly configured?''))
                 else Returned d2))"

text \<open>
  \<^verbatim>\<open>on_program_kill_failed\<close>. Its first statement is
  \<^verbatim>\<open>self._running_remote_program_ids["unreal"].pop(program_id)\<close>: the lookup raises
  \<^verbatim>\<open>KeyError\<close> when no program is registered under \<^verbatim>\<open>"unreal"\<close>, and otherwise yields
  the registered \<^verbatim>\<open>UUID\<close>, which has no attribute \<^verbatim>\<open>pop\<close>, so that
  \<^verbatim>\<open>AttributeError\<close> is raised. The statements after it are the two error entries and
  the assignment of \<^verbatim>\<open>CLOSED\<close>; no value of the dictionary lets them run.
\<close>

definition on_program_kill_failed :: "env \<Rightarrow> DeviceUnreal \<Rightarrow> uuid \<Rightarrow> string \<Rightarrow> outcome" where
  "on_program_kill_failed E d program_id err =
     (case running_remote_program_ids d ''unreal'' of
        None \<Rightarrow> Raised KeyError d
      | Some registered_id \<Rightarrow> Raised AttributeError d)"

text \<open>
  \<^verbatim>\<open>on_file_received\<close>: the lines \<^verbatim>\<open>parse_unreal_tag_file\<close> logs are written before an
  exception of the parser leaves the method.
\<close>

definition on_file_received :: "env \<Rightarrow> DeviceUnreal \<Rightarrow> string \<Rightarrow> string \<Rightarrow> outcome" where
  "on_file_received E d source_path content =
     (if py_endswith source_path (setting_roles_filename E (name d)) then
        (case b64decode E content of
           Inl e \<Rightarrow> Raised e d
         | Inr decoded_content \<Rightarrow>
            (case parse_unreal_tag_file (py_splitlines decoded_content) of (lg, r) \<Rightarrow>
               let d1 = d\<lparr>logger := logger d @ lg\<rparr>
               in (case r of
                 Inl e \<Rightarrow> Raised e d1
               | Inr tags \<Rightarrow>
                  let d2 = d1\<lparr>roles_possible_values := tags\<rparr>;
                      d3 = log_to d2 INFO (name d @ '': All possible roles: '' @ str_list E tags);
                      unsupported_roles = filter (\<lambda>role. role \<notin> set tags) (roles d3)
                  in if length unsupported_roles > 0
                     then Returned
                       (log_to
                         (log_to d3 ERROR
                            (name d @ '': Found unsupported roles: '' @ str_list E unsupported_roles))
                         ERROR
                         (name d @ '': Please change the roles for this device in the settings ''
                          @ ''or in the unreal project settings!''))
                     else Returned d3)))
      else Returned d)"

text \<open>\<^verbatim>\<open>' | '.join(roles)\<close>.\<close>

fun py_join :: "string \<Rightarrow> string list \<Rightarrow> string" where
  "py_join sep [] = []"
| "py_join sep [x] = x"
| "py_join sep (x # y # ys) = x @ sep @ py_join sep (y # ys)"

definition on_file_receive_failed :: "env \<Rightarrow> DeviceUnreal \<Rightarrow> string \<Rightarrow> string \<Rightarrow> outcome" where
  "on_file_receive_failed E d source_path err =
     (if length (roles d) > 0
      then Returned
        (log_to
          (log_to d ERROR
             (name d @ '': Error receiving role file from listener and device claims to have these roles: ''
              @ py_join '' | '' (roles d)))
          ERROR (''Error: '' @ err))
      else Returned d)"

text \<open>
  Running a call of a slot on the device: the methods \<^verbatim>\<open>DeviceUnreal.__init__\<close> put
  into the slots. A call of a slot the device leaves empty does not occur
  (\<open>route_message\<close> under \<open>device_slots\<close> makes none) and changes nothing.
\<close>

fun invoke :: "env \<Rightarrow> DeviceUnreal \<Rightarrow> delegate_call \<Rightarrow> outcome" where
  "invoke E d (call_disconnect unexpected exception) =
     Returned (on_listener_disconnect d unexpected exception)"
| "invoke E d (call_program_started program_id message_id) =
     on_program_started E d program_id message_id"
| "invoke E d (call_program_start_failed err message_id) =
     on_program_start_failed E d err message_id"
| "invoke E d (call_program_ended program_id returncode output) =
     on_program_ended E d program_id returncode output"
| "invoke E d (call_program_kill_failed program_id err) =
     on_program_kill_failed E d program_id err"
| "invoke E d (call_receive_file_completed source_path content) =
     on_file_received E d source_path content"
| "invoke E d (call_receive_file_failed source_path err) =
     on_file_receive_failed E d source_path err"
| "invoke E d other = Returned d"

text \<open>
  The text of \<^verbatim>\<open>traceback.format_exc()\<close> is not modelled beyond the class of the
  exception it ends with.
\<close>

fun format_exc :: "error \<Rightarrow> string" where
  "format_exc KeyError = ''KeyError''"
| "format_exc AttributeError = ''AttributeError''"
| "format_exc IndexError = ''IndexError''"
| "format_exc ValueError = ''ValueError''"
| "format_exc OSError = ''OSError''"
| "format_exc ConnectionResetError = ''ConnectionResetError''"
| "format_exc OverflowError = ''OverflowError''"
| "format_exc TypeError = ''TypeError''"

text \<open>
  The body of the \<^verbatim>\<open>try\<close> of \<^verbatim>\<open>process_received_data\<close> with its bare \<^verbatim>\<open>except\<close>:
  whatever \<^verbatim>\<open>route_message\<close> or the method in the slot raises is logged, and the device
  stays as the method left it.
\<close>

definition route_and_catch :: "env \<Rightarrow> DeviceUnreal \<Rightarrow> message \<Rightarrow> DeviceUnreal" where
  "route_and_catch E d message =
     (let r = (case route_message E device_slots message of
                 Inl e \<Rightarrow> Raised e d
               | Inr None \<Rightarrow> Returned d
               | Inr (Some call) \<Rightarrow> invoke E d call)
      in case r of
           Returned d1 \<Rightarrow> d1
         | Raised e d1 \<Rightarrow>
             log_to d1 ERROR
               (''Error while parsing message: \<newline>\<newline>=== Traceback BEGIN ===\<newline>''
                @ format_exc e @ ''=== Traceback END ===\<newline>''))"

text \<open>
  \<^verbatim>\<open>process_received_data\<close>, run by the worker with the device's methods in the
  slots: the loop over the received symbols, with the buffer (a list, in order) as an
  argument and a result. \<^verbatim>\<open>decode_message\<close> is called outside the \<^verbatim>\<open>try\<close>: its
  exception leaves the method, with the buffer not cleared.
\<close>

fun process_received_data :: "env \<Rightarrow> DeviceUnreal \<Rightarrow> string \<Rightarrow> string \<Rightarrow> outcome \<times> string" where
  "process_received_data E d buffer [] = (Returned d, buffer)"
| "process_received_data E d buffer (symbol # received_data) =
     (if symbol = CHR 0x00 then
        (case decode_message E buffer of
           Inl e \<Rightarrow> (Raised e d, buffer)
         | Inr message \<Rightarrow> process_received_data E (route_and_catch E d message) [] received_data)
      else process_received_data E d (buffer @ [symbol]) received_data)"

subsection \<open>Notions the properties are stated with\<close>

text \<open>Python's \<^verbatim>\<open>sub in s\<close> on strings: \<open>sub\<close> occurs in \<open>s\<close>.\<close>

fun py_contains :: "string \<Rightarrow> string \<Rightarrow> bool" where
  "py_contains [] sub = (sub = [])"
| "py_contains (c # cs) sub = (take (length sub) (c # cs) = sub \<or> py_contains cs sub)"

text \<open>The text after the first occurrence of a marker (empty if there is none).\<close>

fun text_after :: "string \<Rightarrow> string \<Rightarrow> string" where
  "text_after sep [] = []"
| "text_after sep (c # cs) =
     (if take (length sep) (c # cs) = sep then drop (length sep) (c # cs) else text_after sep cs)"

text \<open>The text before the first occurrence of a marker (all of it if there is none).\<close>

fun text_before :: "string \<Rightarrow> string \<Rightarrow> string" where
  "text_before sep [] = []"
| "text_before sep (c # cs) =
     (if take (length sep) (c # cs) = sep then [] else c # text_before sep cs)"

text \<open>
  The tag of a line: the text after the first \<^verbatim>\<open>Tag=\<close>, read up to the next \<^verbatim>\<open>Tag=\<close>
  and then up to the first comma (so up to the next comma, the next \<^verbatim>\<open>Tag=\<close> or the end
  of the line, whichever comes first), without the double quotes around it.
\<close>

definition unreal_tag :: "string \<Rightarrow> string" where
  "unreal_tag line =
     py_strip_chars (takeWhile (\<lambda>c. c \<noteq> CHR '','') (text_before ''Tag='' (text_after ''Tag='' line)))
       [CHR 0x22]"

text \<open>
  The words of the specification, "the tags taken between \<^verbatim>\<open>Tag=\<close> and the next comma
  with surrounding quotes stripped", read for every occurrence of \<^verbatim>\<open>Tag=\<close> in a line:
  the text from that occurrence to the next comma (or the end of the line), without the
  double quotes around it.
\<close>

fun fields_between_marker_and_comma :: "string \<Rightarrow> string list" where
  "fields_between_marker_and_comma [] = []"
| "fields_between_marker_and_comma (c # cs) =
     (if take 4 (c # cs) = ''Tag=''
      then [py_strip_chars (takeWhile (\<lambda>x. x \<noteq> CHR '','') (drop 4 (c # cs))) [CHR 0x22]]
      else [])
     @ fields_between_marker_and_comma cs"

subsection \<open>Running the client\<close>

text \<open>\<^verbatim>\<open>ListenerClient.__init__\<close>; \<open>now\<close> is the clock.\<close>

definition ListenerClient_init :: "string option \<Rightarrow> int \<Rightarrow> int \<Rightarrow> datetime \<Rightarrow> ListenerClient" where
  "ListenerClient_init ip_address_arg port_arg buffer_size_arg now =
     \<lparr>ip_address = ip_address_arg, port = port_arg, buffer_size = buffer_size_arg,
      message_queue = [], close_socket = False, socket = None,
      handle_connection_thread = None, last_activity = now,
      threads_started = 0, transmitted = []\<rparr>"

text \<open>
  The owner of the client and its worker act on the deque in turns: a call of
  \<^verbatim>\<open>send_message\<close>, or the sending part of an iteration of the worker's loop with what
  \<^verbatim>\<open>select\<close> and the clock answered. \<open>run\<close> performs a sequence of such actions, and
  \<open>sent\<close> lists the messages of its calls of \<^verbatim>\<open>send_message\<close>, in order.
\<close>

datatype action = Send bytes | Iteration bool datetime

fun run :: "env \<Rightarrow> action list \<Rightarrow> ListenerClient \<Rightarrow> ListenerClient" where
  "run E [] c = c"
| "run E (Send message_bytes # rest) c = run E rest (fst (send_message E c message_bytes))"
| "run E (Iteration writable now # rest) c = run E rest (handle_connection_send writable now c)"

fun sent :: "action list \<Rightarrow> bytes list" where
  "sent [] = []"
| "sent (Send message_bytes # rest) = message_bytes # sent rest"
| "sent (Iteration writable now # rest) = sent rest"

fun always_writable :: "action list \<Rightarrow> bool" where
  "always_writable [] = True"
| "always_writable (Send message_bytes # rest) = always_writable rest"
| "always_writable (Iteration writable now # rest) = (writable \<and> always_writable rest)"

text \<open>
  An environment and two networks for the examples, whose hosts are IP addresses: on
  the first every address with a port in \<open>0..65535\<close> connects, on the second none
  does; on both, \<^verbatim>\<open>socket.connect\<close> raises \<^verbatim>\<open>OverflowError\<close> for any other port.
\<close>

definition example_env :: env where
  "example_env =
     \<lparr>create_start_process_message = (\<lambda>tool args. (100, ''start '' @ tool @ '' '' @ args)),
      create_kill_process_message = (\<lambda>program_id. (101, ''kill '' @ py_str_nat program_id)),
      decode_message = (\<lambda>buffer. Inl ValueError),
      UUID = (\<lambda>s. Inl ValueError),
      str_uuid = py_str_nat,
      str_bytes = (\<lambda>b. b),
      b64decode = (\<lambda>s. Inr s),
      os_path_join = py_join ''/'',
      os_path_basename = (\<lambda>s. s),
      os_path_dirname = (\<lambda>s. s),
      ENGINE_DIR = (\<lambda>device_name. ''Engine''),
      UPROJECT_PATH = (\<lambda>device_name. ''Project''),
      setting_roles_filename = (\<lambda>device_name. ''VPRoles.ini''),
      str_list = py_join '', ''\<rparr>"

definition reachable :: "string \<times> int \<Rightarrow> connect_result" where
  "reachable addr =
     (if 0 \<le> snd addr \<and> snd addr \<le> 65535 then Connects addr else Raises OverflowError)"

definition unreachable :: "string \<times> int \<Rightarrow> connect_result" where
  "unreachable addr =
     (if 0 \<le> snd addr \<and> snd addr \<le> 65535 then Raises OSError else Raises OverflowError)"

text \<open>
  A client made for the address \<^verbatim>\<open>10.0.0.5\<close> at time \<open>0\<close>, and the same client after a
  successful \<^verbatim>\<open>connect()\<close> at time \<open>5\<close>.
\<close>

definition example_client :: ListenerClient where
  "example_client = ListenerClient_init (Some ''10.0.0.5'') 2980 1024 0"

definition example_connected_client :: ListenerClient where
  "example_connected_client = fst (snd (connect reachable 5 example_client None))"

text \<open>
  A start-confirmed message as the listener sends it, and the environment of the
  examples completed with a codec that decodes the bytes \<^verbatim>\<open>started\<close> into it.
\<close>

definition example_started_message :: message where
  "example_started_message =
     \<lparr>m_command = Some ''start'', m_command_accepted = None, m_id = None, m_error = None,
      m_program_started = Some True, m_message_id = Some ''mid-100'',
      m_program_id = Some ''pid-7'', m_program_ended = None, m_returncode = None,
      m_output = None, m_program_killed = None, m_vcs_init_complete = None,
      m_vcs_report_revision_complete = None, m_revision = None, m_vcs_sync_complete = None,
      m_send_file_complete = None, m_destination = None, m_receive_file_complete = None,
      m_source = None, m_content = None\<rparr>"

definition example_codec_env :: env where
  "example_codec_env =
     example_env
       \<lparr>decode_message :=
          (\<lambda>buffer. if buffer = ''started'' then Inr example_started_message else Inl ValueError),
        UUID :=
          (\<lambda>s. if s = ''mid-100'' then Inr 100 else if s = ''pid-7'' then Inr 7 else Inl ValueError)\<rparr>"

text \<open>
  A device named \<^verbatim>\<open>node1\<close> whose client is not connected, with Unreal running as
  program \<open>7\<close>; the same device waiting for the start of a launch it sent as command
  \<open>100\<close>; and the same device connected, with a sync to changelist \<open>1234\<close> running as
  program \<open>8\<close>.
\<close>

definition example_device :: DeviceUnreal where
  "example_device =
     \<lparr>name = ''node1'', status = OPEN, changelist = PyStr ''1000'',
      unreal_client = example_client, roles = [], roles_possible_values = [],
      start_build_after_sync = False, inflight_changelist = PyInt 0,
      remote_programs_start_queue = Map.empty,
      running_remote_program_names = [7 \<mapsto> ''unreal''],
      running_remote_program_ids = [''unreal'' \<mapsto> 7],
      logger = [], signals = []\<rparr>"

definition example_launching_device :: DeviceUnreal where
  "example_launching_device =
     example_device
       \<lparr>status := CLOSED,
        remote_programs_start_queue := [100 \<mapsto> ''unreal''],
        running_remote_program_names := Map.empty,
        running_remote_program_ids := Map.empty\<rparr>"

definition example_syncing_device :: DeviceUnreal where
  "example_syncing_device =
     example_device
       \<lparr>status := SYNCING, unreal_client := example_connected_client,
        inflight_changelist := PyInt 1234,
        running_remote_program_names := [8 \<mapsto> ''sync''],
        running_remote_program_ids := [''sync'' \<mapsto> 8]\<rparr>"

definition example_querying_device :: DeviceUnreal where
  "example_querying_device =
     example_device
       \<lparr>status := CLOSED,
        running_remote_program_names := [9 \<mapsto> ''cstat''],
        running_remote_program_ids := [''cstat'' \<mapsto> 9]\<rparr>"

section \<open>Properties\<close>

subsection \<open>The tag file parser\<close>

lemma py_split_from_nonempty: "py_split_from sep m acc s \<noteq> []"
  by (induction sep m acc s rule: py_split_from.induct) auto

lemma py_split_from_hd:
  "m \<noteq> 0 \<Longrightarrow> sep \<noteq> [] \<Longrightarrow> hd (py_split_from sep m acc s) = acc @ text_before sep s"
  by (induction s arbitrary: acc) auto

lemma py_split_from_length:
  "m < 0 \<Longrightarrow> sep \<noteq> [] \<Longrightarrow> (1 < length (py_split_from sep m acc s)) = py_contains s sep"
proof (induction s arbitrary: acc)
  case Nil then show ?case by simp
next
  case (Cons c cs)
  have "0 < length (py_split_from sep (m - 1) [] (drop (length sep) (c # cs)))"
    using py_split_from_nonempty by blast
  with Cons show ?case by simp
qed

lemma py_split_from_second:
  "m < 0 \<Longrightarrow> sep \<noteq> [] \<Longrightarrow> py_contains s sep \<Longrightarrow>
     py_split_from sep m acc s ! 1 = text_before sep (text_after sep s)"
proof (induction s arbitrary: acc)
  case Nil then show ?case by simp
next
  case (Cons c cs)
  show ?case
  proof (cases "take (length sep) (c # cs) = sep")
    case True
    have "py_split_from sep (m - 1) [] (drop (length sep) (c # cs)) ! 0
          = hd (py_split_from sep (m - 1) [] (drop (length sep) (c # cs)))"
      by (simp add: hd_conv_nth py_split_from_nonempty)
    with True Cons.prems show ?thesis by (simp add: py_split_from_hd)
  next
    case False
    with Cons show ?thesis by simp
  qed
qed

lemma text_before_single: "text_before [x] s = takeWhile (\<lambda>c. c \<noteq> x) s"
  by (induction s) auto

text \<open>\<^verbatim>\<open>line.split("Tag=")[1]\<close>: the second piece, or \<^verbatim>\<open>IndexError\<close>.\<close>

lemma marker_piece:
  "py_getitem (py_split line ''Tag='' (- 1)) 1 =
     (if py_contains line ''Tag='' then Inr (text_before ''Tag='' (text_after ''Tag='' line))
      else Inl IndexError)"
  using py_split_from_length [of "- 1" "''Tag=''" "[]" line]
        py_split_from_second [of "- 1" "''Tag=''" line "[]"]
  by (simp add: py_getitem_def py_split_def)

text \<open>\<^verbatim>\<open>tag.split(',', 1)[0]\<close> never raises.\<close>

lemma comma_piece:
  "py_getitem (py_split t '','' 1) 0 = Inr (takeWhile (\<lambda>c. c \<noteq> CHR '','') t)"
  using py_split_from_hd [of 1 "'',''" "[]" t] py_split_from_nonempty [of "'',''" 1 "[]" t]
  by (simp add: py_getitem_def py_split_def hd_conv_nth text_before_single)

lemma tag_of_line:
  "py_contains line ''Tag='' \<Longrightarrow>
     (case py_getitem (py_split line ''Tag='' (- 1)) 1 of
        Inl e \<Rightarrow> (lg1, Inl e)
      | Inr tag1 \<Rightarrow>
         (case py_getitem (py_split tag1 '','' 1) 0 of
            Inl e \<Rightarrow> (lg1, Inl e)
          | Inr tag2 \<Rightarrow> k (py_strip_chars tag2 [CHR 0x22])))
     = k (unreal_tag line)"
  by (simp only: marker_piece comma_piece unreal_tag_def if_True sum.case)

lemma no_tag_of_line:
  "\<not> py_contains line ''Tag='' \<Longrightarrow>
     (case py_getitem (py_split line ''Tag='' (- 1)) 1 of
        Inl e \<Rightarrow> (lg1, Inl e)
      | Inr tag1 \<Rightarrow> k tag1)
     = (lg1, Inl IndexError)"
  by (simp only: marker_piece if_False sum.case)

lemma parse_unreal_tag_file_loop_result:
  "snd (parse_unreal_tag_file_loop ls tags lg) =
     (if \<forall>l \<in> set ls. py_startswith l ''GameplayTagList'' \<longrightarrow> py_contains l ''Tag=''
      then Inr (tags @ map unreal_tag (filter (\<lambda>l. py_startswith l ''GameplayTagList'') ls))
      else Inl IndexError)"
proof (induction ls arbitrary: tags lg)
  case Nil then show ?case by simp
next
  case (Cons l ls)
  consider (other) "\<not> py_startswith l ''GameplayTagList''"
    | (tagged) "py_startswith l ''GameplayTagList''" "py_contains l ''Tag=''"
    | (broken) "py_startswith l ''GameplayTagList''" "\<not> py_contains l ''Tag=''"
    by blast
  then show ?case
  proof cases
    case other
    then show ?thesis by (simp add: Cons.IH Let_def)
  next
    case tagged
    have "parse_unreal_tag_file_loop (l # ls) tags lg
          = parse_unreal_tag_file_loop ls (tags @ [unreal_tag l]) (lg @ [(INFO, l)])"
      unfolding parse_unreal_tag_file_loop.simps Let_def
      using tagged tag_of_line [OF tagged(2)] by (simp only: if_True)
    with tagged show ?thesis by (simp add: Cons.IH)
  next
    case broken
    have "parse_unreal_tag_file_loop (l # ls) tags lg = (lg @ [(INFO, l)], Inl IndexError)"
      unfolding parse_unreal_tag_file_loop.simps Let_def
      using broken no_tag_of_line [OF broken(2)] by (simp only: if_True)
    with broken show ?thesis by auto
  qed
qed

text \<open>
  C10 (as amended). \<^verbatim>\<open>parse_unreal_tag_file\<close> raises \<^verbatim>\<open>IndexError\<close> exactly when some
  line that starts with \<^verbatim>\<open>GameplayTagList\<close> contains no \<^verbatim>\<open>Tag=\<close>. On every other input
  it returns, without error, one tag for each line that starts with \<^verbatim>\<open>GameplayTagList\<close>,
  in order: the text after the line's first \<^verbatim>\<open>Tag=\<close> up to the next comma, the next
  \<^verbatim>\<open>Tag=\<close> or the end of the line, whichever comes first, with the double quotes around
  it stripped.
\<close>

theorem parse_unreal_tag_file_result:
  "snd (parse_unreal_tag_file file_content) =
     (if \<forall>line \<in> set file_content.
           py_startswith line ''GameplayTagList'' \<longrightarrow> py_contains line ''Tag=''
      then Inr (map unreal_tag (filter (\<lambda>line. py_startswith line ''GameplayTagList'') file_content))
      else Inl IndexError)"
  by (simp add: parse_unreal_tag_file_def parse_unreal_tag_file_loop_result)

text \<open>
  The theorem at a file of three lines, two of them tags, and at a file whose tag line has
  no \<^verbatim>\<open>Tag=\<close>.
\<close>

theorem parse_unreal_tag_file_result_witness:
  "snd (parse_unreal_tag_file
          [''[/Script/GameplayTags.GameplayTagsList]'',
           ''GameplayTagList=(Tag='' @ [CHR 0x22] @ ''Role.Operator'' @ [CHR 0x22] @ '',DevComment=)'',
           ''GameplayTagList=(Tag=Render)''])
     = Inr [''Role.Operator'', ''Render)'']
   \<and> snd (parse_unreal_tag_file [''GameplayTagList=(DevComment=)'']) = Inl IndexError"
  using parse_unreal_tag_file_result
          [of "[''[/Script/GameplayTags.GameplayTagsList]'',
                ''GameplayTagList=(Tag='' @ [CHR 0x22] @ ''Role.Operator'' @ [CHR 0x22] @ '',DevComment=)'',
                ''GameplayTagList=(Tag=Render)'']"]
        parse_unreal_tag_file_result [of "[''GameplayTagList=(DevComment=)'']"]
  by (simp add: py_startswith_def unreal_tag_def py_strip_chars_def)

text \<open>
  C10 as the specification words it fails on a line in which a second \<^verbatim>\<open>Tag=\<close> comes
  before the comma: the line starts with \<^verbatim>\<open>GameplayTagList\<close> and contains \<^verbatim>\<open>Tag=\<close>, the
  parser returns the tag \<^verbatim>\<open>a\<close>, and the texts between a \<^verbatim>\<open>Tag=\<close> and the next comma
  are \<^verbatim>\<open>aTag=b\<close> and \<^verbatim>\<open>b\<close>.
\<close>

theorem parse_unreal_tag_file_counterexample:
  "py_startswith ''GameplayTagList=(Tag=aTag=b,c)'' ''GameplayTagList''
   \<and> py_contains ''GameplayTagList=(Tag=aTag=b,c)'' ''Tag=''
   \<and> snd (parse_unreal_tag_file [''GameplayTagList=(Tag=aTag=b,c)'']) = Inr [''a'']
   \<and> fields_between_marker_and_comma ''GameplayTagList=(Tag=aTag=b,c)'' = [''aTag=b'', ''b'']
   \<and> ''a'' \<notin> set (fields_between_marker_and_comma ''GameplayTagList=(Tag=aTag=b,c)'')"
  by (simp add: py_startswith_def parse_unreal_tag_file_def py_split_def py_getitem_def
        py_strip_chars_def)

subsection \<open>The handler of a failed kill\<close>

text \<open>
  C1 (the code departs from it). \<^verbatim>\<open>on_program_kill_failed\<close> raises at its first
  statement in every state of the device: \<^verbatim>\<open>KeyError\<close> when no program is registered
  under \<^verbatim>\<open>"unreal"\<close>, \<^verbatim>\<open>AttributeError\<close> otherwise. The device is left as it was: the
  status is not set to \<^verbatim>\<open>CLOSED\<close> and neither error entry is logged.
\<close>

theorem on_program_kill_failed_raises:
  "on_program_kill_failed E d program_id err =
     Raised (if running_remote_program_ids d ''unreal'' = None then KeyError else AttributeError) d"
  by (simp add: on_program_kill_failed_def split: option.splits)

subsection \<open>The outbound queue\<close>

lemma send_message_connected:
  "is_connected c \<Longrightarrow>
     fst (send_message E c m) = c\<lparr>message_queue := m # message_queue c\<rparr>"
  by (simp add: send_message_def)

lemma is_connected_send_message:
  "is_connected (fst (send_message E c m)) = is_connected c"
  by (simp add: send_message_def is_connected_def)

lemma is_connected_handle_connection_send:
  "is_connected (handle_connection_send w t c) = is_connected c"
  by (simp add: handle_connection_send_def is_connected_def Let_def)

lemma handle_connection_send_empty:
  "message_queue c = [] \<Longrightarrow> handle_connection_send w t c = c"
  by (simp add: handle_connection_send_def)

text \<open>
  The right end of the deque is the oldest message: the worker takes it, and transmits it
  if the socket is writable.
\<close>

lemma handle_connection_send_pending:
  "rev (message_queue c) = m # rest \<Longrightarrow>
     rev (message_queue (handle_connection_send w t c)) = rest
     \<and> transmitted (handle_connection_send w t c) = (if w then transmitted c @ [m] else transmitted c)"
proof -
  assume a: "rev (message_queue c) = m # rest"
  then have q: "message_queue c = rev rest @ [m]"
    by (metis rev_rev_ident rev.simps(2))
  show ?thesis by (simp add: handle_connection_send_def Let_def q)
qed

text \<open>
  What holds of every sequence of sends and iterations on a connected client: while the
  socket is writable at each iteration, what was transmitted followed by what is still
  queued (oldest first) is what was sent; in general, what is transmitted and what is
  still queued is a subsequence of what was sent, in the order of the calls.
\<close>

lemma run_writable:
  "is_connected c \<Longrightarrow> always_writable acts \<Longrightarrow>
     transmitted (run E acts c) @ rev (message_queue (run E acts c))
       = transmitted c @ rev (message_queue c) @ sent acts"
proof (induction acts arbitrary: c)
  case Nil then show ?case by simp
next
  case (Cons a acts)
  show ?case
  proof (cases a)
    case (Send m)
    have "is_connected (fst (send_message E c m))"
      using Cons.prems(1) by (simp add: is_connected_send_message)
    from Cons.IH [OF this] Cons.prems Send show ?thesis
      by (simp add: send_message_connected)
  next
    case (Iteration w t)
    have conn: "is_connected (handle_connection_send w t c)"
      using Cons.prems(1) by (simp add: is_connected_handle_connection_send)
    from Cons.prems Iteration have w: "w" and aw: "always_writable acts" by simp_all
    show ?thesis
    proof (cases "rev (message_queue c)")
      case Nil
      then have "handle_connection_send w t c = c" by (simp add: handle_connection_send_empty)
      with Cons.IH [OF Cons.prems(1) aw] Iteration show ?thesis by simp
    next
      case (Cons m rest)
      from handle_connection_send_pending [OF Cons, of w t] w
      have "rev (message_queue (handle_connection_send w t c)) = rest"
        and "transmitted (handle_connection_send w t c) = transmitted c @ [m]" by simp_all
      with Cons.IH [OF conn aw] Iteration Cons show ?thesis by simp
    qed
  qed
qed

lemma run_order:
  "is_connected c \<Longrightarrow>
     \<exists>xs. transmitted (run E acts c) = transmitted c @ xs
        \<and> subseq (xs @ rev (message_queue (run E acts c))) (rev (message_queue c) @ sent acts)"
proof (induction acts arbitrary: c)
  case Nil then show ?case by simp
next
  case (Cons a acts)
  show ?case
  proof (cases a)
    case (Send m)
    have "is_connected (fst (send_message E c m))"
      using Cons.prems(1) by (simp add: is_connected_send_message)
    from Cons.IH [OF this] Cons.prems Send show ?thesis
      by (simp add: send_message_connected)
  next
    case (Iteration w t)
    have conn: "is_connected (handle_connection_send w t c)"
      using Cons.prems(1) by (simp add: is_connected_handle_connection_send)
    show ?thesis
    proof (cases "rev (message_queue c)")
      case Nil
      then have "handle_connection_send w t c = c" by (simp add: handle_connection_send_empty)
      with Cons.IH [OF Cons.prems(1)] Iteration show ?thesis by simp
    next
      case (Cons m rest)
      let ?c1 = "handle_connection_send w t c"
      from handle_connection_send_pending [OF Cons, of w t]
      have p: "rev (message_queue ?c1) = rest"
        and t: "transmitted ?c1 = (if w then transmitted c @ [m] else transmitted c)" by simp_all
      from Cons.IH [OF conn] obtain xs where
        x1: "transmitted (run E acts ?c1) = transmitted ?c1 @ xs" and
        x2: "subseq (xs @ rev (message_queue (run E acts ?c1))) (rest @ sent acts)"
        using p by auto
      show ?thesis
      proof (cases w)
        case True
        with x1 x2 t Iteration Cons show ?thesis
          by (intro exI [of _ "m # xs"]) simp
      next
        case False
        with x1 x2 t Iteration Cons show ?thesis
          by (intro exI [of _ xs]) (simp add: list_emb_Cons)
      qed
    qed
  qed
qed

text \<open>
  C4 (the code departs from it). A connected client with an empty queue is sent the
  message \<open>a\<close> and then the message \<open>b\<close>. At the next iteration of the worker the
  socket is not writable: \<^verbatim>\<open>pop()\<close> takes \<open>a\<close> from the queue all the same, the loop
  over the writable sockets has nothing to run on, and \<open>a\<close> is gone. At the two
  iterations after it the socket is writable: \<open>b\<close> is transmitted and the queue is
  empty. Of the two messages sent, only the second is ever transmitted, so the first
  enqueued is not the first transmitted.
\<close>

theorem send_message_lost_when_not_writable:
  assumes "is_connected c" and "message_queue c = []"
  shows "sent [Send a, Send b, Iteration False t1, Iteration True t2, Iteration True t3] = [a, b]
    \<and> transmitted
         (run E [Send a, Send b, Iteration False t1, Iteration True t2, Iteration True t3] c)
        = transmitted c @ [b]
    \<and> message_queue
         (run E [Send a, Send b, Iteration False t1, Iteration True t2, Iteration True t3] c)
        = []"
proof -
  have c1: "fst (send_message E c a) = c\<lparr>message_queue := [a]\<rparr>"
    using assms by (simp add: send_message_connected)
  have "is_connected (c\<lparr>message_queue := [a]\<rparr>)"
    using assms(1) by (simp add: is_connected_def)
  then have c2: "fst (send_message E (c\<lparr>message_queue := [a]\<rparr>) b)
                   = c\<lparr>message_queue := [b, a]\<rparr>"
    by (simp add: send_message_connected)
  show ?thesis
    by (simp add: c1 c2 handle_connection_send_def Let_def)
qed

text \<open>
  The theorem at the connected client of the examples, with the messages \<^verbatim>\<open>a\<close> and
  \<^verbatim>\<open>b\<close>: only \<^verbatim>\<open>b\<close> is transmitted.
\<close>

theorem send_message_lost_when_not_writable_witness:
  "is_connected example_connected_client
   \<and> message_queue example_connected_client = []
   \<and> sent [Send ''a'', Send ''b'', Iteration False 6, Iteration True 7, Iteration True 8]
       = [''a'', ''b'']
   \<and> transmitted (run example_env
        [Send ''a'', Send ''b'', Iteration False 6, Iteration True 7, Iteration True 8]
        example_connected_client) = [''b'']
   \<and> message_queue (run example_env
        [Send ''a'', Send ''b'', Iteration False 6, Iteration True 7, Iteration True 8]
        example_connected_client) = []"
  using send_message_lost_when_not_writable
          [of example_connected_client "''a''" "''b''" 6 7 8 example_env]
  by (simp add: example_connected_client_def example_client_def ListenerClient_init_def
        connect_def server_address_def reachable_def py_truthy_def is_connected_def Let_def)

subsection \<open>\<^verbatim>\<open>connect\<close>\<close>

text \<open>
  C5 (as amended). When no address is known (the argument and the stored address are
  both \<^verbatim>\<open>None\<close> or empty) \<^verbatim>\<open>connect\<close> returns false and leaves the client as it was:
  no worker is started and \<^verbatim>\<open>is_connected\<close> keeps the value it had. When
  \<^verbatim>\<open>socket.connect\<close> raises an \<^verbatim>\<open>OSError\<close>, \<^verbatim>\<open>connect\<close> returns false without raising,
  starts no worker and leaves no socket, so \<^verbatim>\<open>is_connected\<close> is false. When
  \<^verbatim>\<open>socket.connect\<close> raises an exception that is not an \<^verbatim>\<open>OSError\<close> (as
  \<^verbatim>\<open>OverflowError\<close> for a port outside \<open>0..65535\<close>), the exception leaves \<^verbatim>\<open>connect\<close>:
  no worker is started, the unconnected socket object stays, and \<^verbatim>\<open>is_connected\<close> is
  false. When \<^verbatim>\<open>socket.connect\<close> succeeds, \<^verbatim>\<open>connect\<close> returns true, holds a socket
  connected to the peer and has started exactly one worker.
\<close>

theorem connect_outcome:
  "connect os_connect now c a = (r, c', lg) \<Longrightarrow>
     (if \<not> py_truthy a \<and> \<not> py_truthy (ip_address c)
      then r = Inr False \<and> c' = c
      else case os_connect (the (if py_truthy a then a else ip_address c), port c) of
             Connects peer \<Rightarrow>
               r = Inr True
               \<and> socket c' = Some (Socket (Some peer))
               \<and> is_connected c'
               \<and> threads_started c' = Suc (threads_started c)
               \<and> handle_connection_thread c' = Some (threads_started c)
           | Raises e \<Rightarrow>
               (if is_OSError e
                then r = Inr False
                   \<and> socket c' = None
                   \<and> \<not> is_connected c'
                   \<and> threads_started c' = threads_started c
                   \<and> handle_connection_thread c' = handle_connection_thread c
                else r = Inl e
                   \<and> socket c' = Some (Socket None)
                   \<and> \<not> is_connected c'
                   \<and> threads_started c' = threads_started c
                   \<and> handle_connection_thread c' = handle_connection_thread c))"
  by (auto simp add: connect_def server_address_def Let_def is_connected_def
        split: if_splits connect_result.splits)

text \<open>
  The theorem at an unreachable address, at a reachable one, at a client without an
  address, and at a client whose port is \<open>65536\<close>.
\<close>

theorem connect_outcome_witness:
  "connect unreachable 5 example_client None
     = (Inr False,
        example_client\<lparr>close_socket := False, last_activity := 5, socket := None\<rparr>,
        [(INFO, ''Connecting to 10.0.0.5:2980''), (ERROR, ''Socket Error: 10.0.0.5:2980'')])
   \<and> \<not> is_connected (example_client\<lparr>close_socket := False, last_activity := 5, socket := None\<rparr>)
   \<and> threads_started (example_client\<lparr>close_socket := False, last_activity := 5, socket := None\<rparr>)
       = threads_started example_client
   \<and> fst (connect reachable 5 example_client None) = Inr True
   \<and> is_connected example_connected_client
   \<and> socket example_connected_client = Some (Socket (Some (''10.0.0.5'', 2980)))
   \<and> threads_started example_connected_client = Suc (threads_started example_client)
   \<and> fst (connect reachable 5 (ListenerClient_init None 2980 1024 0) None) = Inr False
   \<and> connect reachable 5 (example_client\<lparr>port := 65536\<rparr>) None
     = (Inl OverflowError,
        example_client\<lparr>port := 65536, close_socket := False, last_activity := 5,
                       socket := Some (Socket None)\<rparr>,
        [(INFO, ''Connecting to 10.0.0.5:65536'')])
   \<and> \<not> is_connected (example_client\<lparr>port := 65536, close_socket := False, last_activity := 5,
                                     socket := Some (Socket None)\<rparr>)
   \<and> threads_started (example_client\<lparr>port := 65536, close_socket := False, last_activity := 5,
                                      socket := Some (Socket None)\<rparr>)
       = threads_started example_client"
  using connect_outcome [of unreachable 5 example_client None "Inr False"
          "example_client\<lparr>close_socket := False, last_activity := 5, socket := None\<rparr>"
          "[(INFO, ''Connecting to 10.0.0.5:2980''), (ERROR, ''Socket Error: 10.0.0.5:2980'')]"]
        connect_outcome [of reachable 5 example_client None "Inr True" example_connected_client
          "[(INFO, ''Connecting to 10.0.0.5:2980'')]"]
        connect_outcome [of reachable 5 "ListenerClient_init None 2980 1024 0" None "Inr False"
          "ListenerClient_init None 2980 1024 0"
          "[(DEBUG, ''No ip_address was given. Cannot connect'')]"]
        connect_outcome [of reachable 5 "example_client\<lparr>port := 65536\<rparr>" None
          "Inl OverflowError"
          "example_client\<lparr>port := 65536, close_socket := False, last_activity := 5,
                          socket := Some (Socket None)\<rparr>"
          "[(INFO, ''Connecting to 10.0.0.5:65536'')]"]
  by (simp add: example_connected_client_def example_client_def ListenerClient_init_def
        connect_def server_address_def reachable_def unreachable_def py_truthy_def
        is_connected_def is_OSError_def Let_def py_str_int_def)

text \<open>
  C5 as the specification words it fails when no address is known and the client is
  connected: the client of a device is connected, \<^verbatim>\<open>on_setting_ip_address_changed\<close>
  sets its address to the empty string, \<^verbatim>\<open>connect()\<close> then returns false, and
  \<^verbatim>\<open>is_connected\<close> is still true afterwards.
\<close>

theorem connect_no_address_counterexample:
  "is_connected (unreal_client (example_device\<lparr>unreal_client := example_connected_client\<rparr>))
   \<and> \<not> py_truthy (ip_address (unreal_client
          (on_setting_ip_address_changed
             (example_device\<lparr>unreal_client := example_connected_client\<rparr>) [])))
   \<and> fst (connect reachable 9
          (unreal_client
             (on_setting_ip_address_changed
                (example_device\<lparr>unreal_client := example_connected_client\<rparr>) []))
          None) = Inr False
   \<and> is_connected
        (fst (snd (connect reachable 9
          (unreal_client
             (on_setting_ip_address_changed
                (example_device\<lparr>unreal_client := example_connected_client\<rparr>) []))
          None)))"
  by (simp add: example_device_def example_connected_client_def example_client_def
        ListenerClient_init_def connect_def server_address_def reachable_def py_truthy_def
        is_connected_def Let_def on_setting_ip_address_changed_def log_to_def)

text \<open>
  C9 (as amended). A \<^verbatim>\<open>connect\<close> that returns false because the connect of the
  operating system failed has changed the client: the close-requested flag is cleared,
  the last-activity time is the current time, the socket is \<^verbatim>\<open>None\<close>, and the stored
  address is the argument if a non-empty one was passed. A \<^verbatim>\<open>connect\<close> that returns
  false because no address is known has changed nothing.
\<close>

theorem connect_failure_state:
  "connect os_connect now c a = (Inr False, c', lg) \<Longrightarrow>
     (if \<not> py_truthy a \<and> \<not> py_truthy (ip_address c)
      then c' = c
      else c' = c\<lparr>ip_address := (if py_truthy a then a else ip_address c),
                  close_socket := False, last_activity := now, socket := None\<rparr>)"
  by (auto simp add: connect_def Let_def split: if_splits connect_result.splits)

text \<open>
  The theorem at an unreachable address passed as argument, and at a client without an
  address that is passed the empty string.
\<close>

theorem connect_failure_state_witness:
  "connect unreachable 5 (example_client\<lparr>close_socket := True\<rparr>) (Some ''10.0.0.9'')
     = (Inr False,
        example_client\<lparr>ip_address := Some ''10.0.0.9'', close_socket := False,
                       last_activity := 5, socket := None\<rparr>,
        [(INFO, ''Connecting to 10.0.0.9:2980''), (ERROR, ''Socket Error: 10.0.0.9:2980'')])
   \<and> connect unreachable 5 (ListenerClient_init None 2980 1024 0) (Some [])
     = (Inr False, ListenerClient_init None 2980 1024 0,
        [(DEBUG, ''No ip_address was given. Cannot connect'')])"
  using connect_failure_state [of unreachable 5 "example_client\<lparr>close_socket := True\<rparr>"
          "Some ''10.0.0.9''"
          "example_client\<lparr>ip_address := Some ''10.0.0.9'', close_socket := False,
                          last_activity := 5, socket := None\<rparr>"
          "[(INFO, ''Connecting to 10.0.0.9:2980''), (ERROR, ''Socket Error: 10.0.0.9:2980'')]"]
        connect_failure_state [of unreachable 5 "ListenerClient_init None 2980 1024 0" "Some []"
          "ListenerClient_init None 2980 1024 0"
          "[(DEBUG, ''No ip_address was given. Cannot connect'')]"]
  by (simp add: example_client_def ListenerClient_init_def
        connect_def server_address_def unreachable_def py_truthy_def is_OSError_def Let_def
        py_str_int_def)

text \<open>
  C9 as the specification words it fails for a client made without an address at time
  \<open>0\<close>: \<^verbatim>\<open>connect()\<close> at time \<open>5\<close> returns false, and the last-activity time is still
  \<open>0\<close>; the client is what it was.
\<close>

theorem connect_failure_counterexample:
  "fst (connect reachable 5 (ListenerClient_init None 2980 1024 0) None) = Inr False
   \<and> last_activity (ListenerClient_init None 2980 1024 0) = 0
   \<and> last_activity (fst (snd (connect reachable 5 (ListenerClient_init None 2980 1024 0) None))) = 0
   \<and> fst (snd (connect reachable 5 (ListenerClient_init None 2980 1024 0) None))
       = ListenerClient_init None 2980 1024 0"
  by (simp add: ListenerClient_init_def connect_def server_address_def py_truthy_def)

subsection \<open>The end of a sync\<close>

text \<open>
  C3. The program that ended is registered as \<^verbatim>\<open>"sync"\<close> (in both tables of running
  programs) and its return code is not zero. The handler returns; the status is
  \<^verbatim>\<open>CLOSED\<close>; the changelist is what it was; the log receives the exit line, the entry
  that the project was not synced, and one error entry for each line of the output; the
  signal \<^verbatim>\<open>signal_device_sync_failed\<close> is emitted. The in-flight changelist is reset,
  and the flag of a pending build and the client are untouched.
\<close>

theorem on_program_ended_sync_failed:
  assumes "running_remote_program_names d program_id = Some ''sync''"
    and "running_remote_program_ids d ''sync'' = Some registered_id"
    and "returncode \<noteq> 0"
  shows "raised (on_program_ended E d program_id returncode output) = None
    \<and> status (final (on_program_ended E d program_id returncode output)) = CLOSED
    \<and> changelist (final (on_program_ended E d program_id returncode output)) = changelist d
    \<and> logger (final (on_program_ended E d program_id returncode output))
        = logger d
          @ [(INFO, name d @ '': Program with id '' @ str_uuid E program_id
                    @ '' exited with returncode '' @ py_str_int returncode),
             (ERROR, name d @ '': Project was not synced successfully!'')]
          @ map (\<lambda>line. (ERROR, name d @ '': '' @ line)) (py_splitlines output)
    \<and> signals (final (on_program_ended E d program_id returncode output))
        = signals d @ [signal_device_sync_failed]
    \<and> inflight_changelist (final (on_program_ended E d program_id returncode output)) = PyInt 0
    \<and> start_build_after_sync (final (on_program_ended E d program_id returncode output))
        = start_build_after_sync d
    \<and> unreal_client (final (on_program_ended E d program_id returncode output)) = unreal_client d
    \<and> running_remote_program_names (final (on_program_ended E d program_id returncode output))
        = (running_remote_program_names d)(program_id := None)
    \<and> running_remote_program_ids (final (on_program_ended E d program_id returncode output))
        = (running_remote_program_ids d)(''sync'' := None)"
  using assms
  by (simp add: on_program_ended_def Let_def log_to_def emit_def log_output_lines_def)

text \<open>
  The theorem at the scenario of the specification: the sync to \<open>1234\<close> ends with return
  code \<open>5\<close> and the output \<^verbatim>\<open>error: conflict\<close>.
\<close>

theorem on_program_ended_sync_failed_witness:
  "running_remote_program_names example_syncing_device 8 = Some ''sync''
   \<and> running_remote_program_ids example_syncing_device ''sync'' = Some 8
   \<and> (5::int) \<noteq> 0
   \<and> raised (on_program_ended example_env example_syncing_device 8 5 ''error: conflict'') = None
   \<and> status (final (on_program_ended example_env example_syncing_device 8 5 ''error: conflict''))
       = CLOSED
   \<and> changelist (final (on_program_ended example_env example_syncing_device 8 5 ''error: conflict''))
       = PyStr ''1000''
   \<and> logger (final (on_program_ended example_env example_syncing_device 8 5 ''error: conflict''))
       = [(INFO, ''node1: Program with id 8 exited with returncode 5''),
          (ERROR, ''node1: Project was not synced successfully!''),
          (ERROR, ''node1: error: conflict'')]
   \<and> signals (final (on_program_ended example_env example_syncing_device 8 5 ''error: conflict''))
       = [signal_device_sync_failed]"
  using on_program_ended_sync_failed
          [of example_syncing_device 8 8 5 example_env "''error: conflict''"]
  by (simp add: example_syncing_device_def example_device_def example_env_def
        py_str_int_def py_splitlines_def py_linebreak_def)

text \<open>
  C2. The program that ended is registered as \<^verbatim>\<open>"sync"\<close> (in both tables of running
  programs) and its return code is zero. The handler returns; the changelist is the
  in-flight changelist recorded before; the flag of a pending build is clear afterwards
  and the in-flight changelist is reset. If the flag was not set, the status is \<^verbatim>\<open>CLOSED\<close>
  and no command is sent. If the flag was set (by a call of \<^verbatim>\<open>build\<close> while the status
  was \<^verbatim>\<open>SYNCING\<close>), \<^verbatim>\<open>build\<close> runs on the device whose status is \<^verbatim>\<open>CLOSED\<close>, whose
  changelist is committed and whose flag is cleared: a build command is recorded in the
  start queue and the status is \<^verbatim>\<open>BUILDING\<close>.
\<close>

theorem on_program_ended_sync_succeeded:
  assumes "running_remote_program_names d program_id = Some ''sync''"
    and "running_remote_program_ids d ''sync'' = Some registered_id"
  shows "raised (on_program_ended E d program_id 0 output) = None
    \<and> changelist (final (on_program_ended E d program_id 0 output)) = inflight_changelist d
    \<and> \<not> start_build_after_sync (final (on_program_ended E d program_id 0 output))
    \<and> inflight_changelist (final (on_program_ended E d program_id 0 output)) = PyInt 0
    \<and> (if start_build_after_sync d
        then status (final (on_program_ended E d program_id 0 output)) = BUILDING
           \<and> (\<exists>mid. remote_programs_start_queue (final (on_program_ended E d program_id 0 output)) mid
                      = Some ''build'')
           \<and> (\<exists>closed. status closed = CLOSED
                 \<and> changelist closed = inflight_changelist d
                 \<and> \<not> start_build_after_sync closed
                 \<and> final (on_program_ended E d program_id 0 output)
                     = (build E closed)\<lparr>inflight_changelist := PyInt 0\<rparr>)
        else status (final (on_program_ended E d program_id 0 output)) = CLOSED
           \<and> remote_programs_start_queue (final (on_program_ended E d program_id 0 output))
               = remote_programs_start_queue d
           \<and> unreal_client (final (on_program_ended E d program_id 0 output)) = unreal_client d
           \<and> signals (final (on_program_ended E d program_id 0 output)) = signals d)"
proof (cases "start_build_after_sync d")
  case False
  with assms show ?thesis
    by (simp add: on_program_ended_def Let_def log_to_def)
next
  case True
  define closed where "closed =
    d\<lparr>running_remote_program_names := (running_remote_program_names d)(program_id := None),
       running_remote_program_ids := (running_remote_program_ids d)(''sync'' := None),
       status := CLOSED,
       logger := logger d
          @ [(INFO, name d @ '': Program with id '' @ str_uuid E program_id
                    @ '' exited with returncode '' @ py_str_int 0),
             (INFO, name d @ '': Project was synced successfully'')],
       changelist := inflight_changelist d,
       start_build_after_sync := False\<rparr>"
  have run: "on_program_ended E d program_id 0 output
             = Returned ((build E closed)\<lparr>inflight_changelist := PyInt 0\<rparr>)"
    using assms True by (simp add: on_program_ended_def Let_def log_to_def closed_def)
  have closed: "status closed = CLOSED" "changelist closed = inflight_changelist d"
    "\<not> start_build_after_sync closed"
    by (simp_all add: closed_def)
  have b1: "status (build E closed) = BUILDING"
    and b2: "changelist (build E closed) = changelist closed"
    and b3: "start_build_after_sync (build E closed) = start_build_after_sync closed"
    and b5: "\<exists>mid. remote_programs_start_queue (build E closed) mid = Some ''build''"
    using closed(1)
    by (auto simp add: build_def Let_def log_to_def emit_def unreal_client_send_message_def
          send_message_def on_listener_disconnect_def split: prod.splits)
  from run True closed b1 b2 b3 b5 show ?thesis
    apply (simp only: if_True final.simps raised.simps)
    apply (intro conjI)
    apply simp_all
    apply (rule exI [of _ closed])
    apply simp
    done
qed

text \<open>
  The theorem at the scenario of the specification: \<^verbatim>\<open>build\<close> is called while the sync
  to \<open>1234\<close> runs, which sets the flag and sends nothing; the sync then ends with return
  code \<open>0\<close> and no output. The changelist is \<open>1234\<close>, the build command (command \<open>100\<close>
  of the example codec) is queued on the connection, and the status is \<^verbatim>\<open>BUILDING\<close>.
\<close>

theorem on_program_ended_sync_succeeded_witness:
  "running_remote_program_names (build example_env example_syncing_device) 8 = Some ''sync''
   \<and> running_remote_program_ids (build example_env example_syncing_device) ''sync'' = Some 8
   \<and> start_build_after_sync (build example_env example_syncing_device)
   \<and> status (build example_env example_syncing_device) = SYNCING
   \<and> message_queue (unreal_client (build example_env example_syncing_device)) = []
   \<and> raised (on_program_ended example_env (build example_env example_syncing_device) 8 0 []) = None
   \<and> status (final (on_program_ended example_env (build example_env example_syncing_device) 8 0 []))
       = BUILDING
   \<and> changelist (final (on_program_ended example_env (build example_env example_syncing_device) 8 0 []))
       = PyInt 1234
   \<and> \<not> start_build_after_sync
          (final (on_program_ended example_env (build example_env example_syncing_device) 8 0 []))
   \<and> remote_programs_start_queue
        (final (on_program_ended example_env (build example_env example_syncing_device) 8 0 [])) 100
       = Some ''build''
   \<and> message_queue (unreal_client
        (final (on_program_ended example_env (build example_env example_syncing_device) 8 0 [])))
       = [''start Engine/Binaries/DotNET/UnrealBuildTool UE4Editor Win64 Development Project -progress'']
   \<and> status (final (on_program_ended example_env example_syncing_device 8 0 [])) = CLOSED
   \<and> changelist (final (on_program_ended example_env example_syncing_device 8 0 [])) = PyInt 1234"
  using on_program_ended_sync_succeeded
          [of "build example_env example_syncing_device" 8 8 example_env "[]"]
        on_program_ended_sync_succeeded [of example_syncing_device 8 8 example_env "[]"]
  by (simp add: example_syncing_device_def example_device_def example_env_def
        example_connected_client_def example_client_def ListenerClient_init_def connect_def server_address_def
        reachable_def py_truthy_def is_connected_def
        on_program_ended_def build_def Let_def log_to_def unreal_client_send_message_def
        send_message_def)

subsection \<open>The end of a changelist query\<close>

lemma py_split_ws_from_tokens:
  "\<forall>c \<in> set acc. \<not> py_isspace c \<Longrightarrow> t \<in> set (py_split_ws_from acc s) \<Longrightarrow>
     t \<noteq> [] \<and> (\<forall>c \<in> set t. \<not> py_isspace c)"
proof (induction s arbitrary: acc)
  case Nil
  then show ?case by (cases "acc = []") simp_all
next
  case (Cons c cs)
  show ?case
  proof (cases "py_isspace c")
    case space: True
    show ?thesis
    proof (cases "acc = []")
      case True
      with space Cons.prems have "t \<in> set (py_split_ws_from [] cs)" by simp
      then show ?thesis using Cons.IH [of "[]"] by simp
    next
      case False
      with space Cons.prems have "t = acc \<or> t \<in> set (py_split_ws_from [] cs)" by simp
      then show ?thesis
      proof
        assume "t = acc"
        with False Cons.prems(1) show ?thesis by simp
      next
        assume "t \<in> set (py_split_ws_from [] cs)"
        then show ?thesis using Cons.IH [of "[]"] by simp
      qed
    qed
  next
    case False
    with Cons.prems have "t \<in> set (py_split_ws_from (acc @ [c]) cs)" by simp
    moreover from False Cons.prems(1) have "\<forall>x \<in> set (acc @ [c]). \<not> py_isspace x" by simp
    ultimately show ?thesis using Cons.IH [of "acc @ [c]"] by blast
  qed
qed

lemma py_strip_no_space: "\<forall>c \<in> set t. \<not> py_isspace c \<Longrightarrow> py_strip t = t"
proof -
  assume a: "\<forall>c \<in> set t. \<not> py_isspace c"
  then have "dropWhile py_isspace t = t"
    by (cases t) simp_all
  moreover from a have "\<forall>c \<in> set (rev t). \<not> py_isspace c" by simp
  then have "dropWhile py_isspace (rev t) = rev t"
    by (cases "rev t") simp_all
  ultimately show ?thesis by (simp add: py_strip_def)
qed

text \<open>\<^verbatim>\<open>line.strip()\<close> changes no token of \<^verbatim>\<open>output.split()\<close>.\<close>

lemma map_py_strip_py_split_ws: "map py_strip (py_split_ws s) = py_split_ws s"
proof -
  have "\<forall>t \<in> set (py_split_ws s). py_strip t = t"
    using py_split_ws_from_tokens [of "[]" _ s] py_strip_no_space
    by (auto simp add: py_split_ws_def)
  then show ?thesis by (simp add: map_idI)
qed

text \<open>
  C8. The program that ended is registered as \<^verbatim>\<open>"cstat"\<close> (in both tables of running
  programs). The handler returns and the status is what it was. The output is cut into
  its tokens separated by whitespace: if there is one, the last token is the changelist
  afterwards; if there is none, as for the empty output, the changelist is what it was
  and the log receives the exit line and the error entry about the source control
  settings.
\<close>

theorem on_program_ended_cstat:
  assumes "running_remote_program_names d program_id = Some ''cstat''"
    and "running_remote_program_ids d ''cstat'' = Some registered_id"
  shows "raised (on_program_ended E d program_id returncode output) = None
    \<and> status (final (on_program_ended E d program_id returncode output)) = status d
    \<and> (if py_split_ws output \<noteq> []
        then changelist (final (on_program_ended E d program_id returncode output))
               = PyStr (last (py_split_ws output))
        else changelist (final (on_program_ended E d program_id returncode output)) = changelist d
           \<and> logger (final (on_program_ended E d program_id returncode output))
               = logger d
                 @ [(INFO, name d @ '': Program with id '' @ str_uuid E program_id
                           @ '' exited with returncode '' @ py_str_int returncode),
                    (ERROR, name d @ '': Could not retrieve changelists for project. ''
                            @ ''Are the Source Control Settings correctly configured?'')])
    \<and> py_split_ws [] = []"
proof -
  have "py_split_ws [] = []" by (simp add: py_split_ws_def)
  with assms show ?thesis
    by (simp add: on_program_ended_def Let_def log_to_def map_py_strip_py_split_ws)
qed

text \<open>
  The theorem at the scenarios of the specification: the output of three lines
  \<^verbatim>\<open>1000\<close>, \<^verbatim>\<open>1005\<close>, \<^verbatim>\<open>1007\<close>, and the empty output.
\<close>

theorem on_program_ended_cstat_witness:
  "running_remote_program_names example_querying_device 9 = Some ''cstat''
   \<and> running_remote_program_ids example_querying_device ''cstat'' = Some 9
   \<and> py_split_ws (''1000'' @ [CHR 0x0A] @ ''1005'' @ [CHR 0x0A] @ ''1007'')
       = [''1000'', ''1005'', ''1007'']
   \<and> changelist (final (on_program_ended example_env example_querying_device 9 0
        (''1000'' @ [CHR 0x0A] @ ''1005'' @ [CHR 0x0A] @ ''1007''))) = PyStr ''1007''
   \<and> changelist (final (on_program_ended example_env example_querying_device 9 0 []))
       = PyStr ''1000''
   \<and> logger (final (on_program_ended example_env example_querying_device 9 0 []))
       = [(INFO, ''node1: Program with id 9 exited with returncode 0''),
          (ERROR, ''node1: Could not retrieve changelists for project. ''
                  @ ''Are the Source Control Settings correctly configured?'')]"
  using on_program_ended_cstat [of example_querying_device 9 9 example_env 0
          "''1000'' @ [CHR 0x0A] @ ''1005'' @ [CHR 0x0A] @ ''1007''"]
        on_program_ended_cstat [of example_querying_device 9 9 example_env 0 "[]"]
  by (simp add: example_querying_device_def example_device_def example_env_def
        py_split_ws_def py_isspace_def py_str_int_def)

subsection \<open>\<^verbatim>\<open>close\<close>\<close>

text \<open>
  C7 (as amended). When no program is registered under \<^verbatim>\<open>"unreal"\<close>, \<^verbatim>\<open>close\<close> sets
  the status to \<^verbatim>\<open>CLOSED\<close> and changes nothing else: no message is queued. When a
  program is registered under \<^verbatim>\<open>"unreal"\<close>, \<^verbatim>\<open>close\<close> does not change the status and
  hands the kill command for that program to \<^verbatim>\<open>send_message\<close> once: if the client is
  connected, exactly that one message is added to the queue and the sending is logged;
  if it is not, nothing is added to the queue, the failure to send is logged as an error
  and the signal of a lost connection is emitted.
\<close>

theorem close_outcome:
  "(running_remote_program_ids d ''unreal'' = None \<longrightarrow> close E d force = d\<lparr>status := CLOSED\<rparr>)
   \<and> (running_remote_program_ids d ''unreal'' = Some program_id \<longrightarrow>
        status (close E d force) = status d
        \<and> transmitted (unreal_client (close E d force)) = transmitted (unreal_client d)
        \<and> (if is_connected (unreal_client d)
            then message_queue (unreal_client (close E d force))
                   = snd (create_kill_process_message E program_id) # message_queue (unreal_client d)
               \<and> signals (close E d force) = signals d
               \<and> logger (close E d force)
                   = logger d
                     @ [(MESSAGE, ''Message: Sending ('' @ py_str_opt (ip_address (unreal_client d))
                                  @ ''): ''
                                  @ str_bytes E (snd (create_kill_process_message E program_id)))]
            else message_queue (unreal_client (close E d force)) = message_queue (unreal_client d)
               \<and> signals (close E d force) = signals d @ [signal_device_client_disconnected]
               \<and> logger (close E d force)
                   = logger d
                     @ [(ERROR, ''Message: Failed to send ('' @ py_str_opt (ip_address (unreal_client d))
                                @ ''): ''
                                @ str_bytes E (snd (create_kill_process_message E program_id))
                                @ ''. No socket connected'')]))"
  by (simp add: close_def unreal_client_send_message_def send_message_def Let_def
        on_listener_disconnect_def emit_def split: prod.splits)

text \<open>
  The theorem at a device with nothing registered, at a connected device on which
  Unreal runs as program \<open>7\<close>, and at the same device not connected.
\<close>

theorem close_outcome_witness:
  "running_remote_program_ids example_launching_device ''unreal'' = None
   \<and> close example_env example_launching_device False = example_launching_device\<lparr>status := CLOSED\<rparr>
   \<and> running_remote_program_ids (example_device\<lparr>unreal_client := example_connected_client\<rparr>) ''unreal''
       = Some 7
   \<and> is_connected example_connected_client
   \<and> status (close example_env (example_device\<lparr>unreal_client := example_connected_client\<rparr>) False)
       = OPEN
   \<and> message_queue
        (unreal_client (close example_env (example_device\<lparr>unreal_client := example_connected_client\<rparr>) False))
       = [''kill 7'']
   \<and> logger (close example_env (example_device\<lparr>unreal_client := example_connected_client\<rparr>) False)
       = [(MESSAGE, ''Message: Sending (10.0.0.5): kill 7'')]
   \<and> running_remote_program_ids example_device ''unreal'' = Some 7
   \<and> \<not> is_connected (unreal_client example_device)
   \<and> status (close example_env example_device False) = OPEN
   \<and> logger (close example_env example_device False)
       = [(ERROR, ''Message: Failed to send (10.0.0.5): kill 7. No socket connected'')]"
  using close_outcome [of example_launching_device example_env False 7]
        close_outcome [of "example_device\<lparr>unreal_client := example_connected_client\<rparr>"
          example_env False 7]
        close_outcome [of example_device example_env False 7]
  by (simp add: example_launching_device_def example_device_def example_env_def
        example_connected_client_def example_client_def ListenerClient_init_def connect_def
        server_address_def reachable_def py_truthy_def is_connected_def Let_def py_str_opt_def)

text \<open>
  C7 as the specification words it fails on a device whose client is not connected:
  Unreal is registered as program \<open>7\<close>, and \<^verbatim>\<open>close\<close> leaves the queue of the connection
  empty and transmits nothing, so no kill command is sent; what it does is log the
  failure and emit the signal of a lost connection.
\<close>

theorem close_counterexample:
  "running_remote_program_ids example_device ''unreal'' = Some 7
   \<and> \<not> is_connected (unreal_client example_device)
   \<and> message_queue (unreal_client (close example_env example_device False)) = []
   \<and> transmitted (unreal_client (close example_env example_device False)) = []
   \<and> logger (close example_env example_device False)
       = [(ERROR, ''Message: Failed to send (10.0.0.5): kill 7. No socket connected'')]
   \<and> signals (close example_env example_device False) = [signal_device_client_disconnected]"
  by (simp add: example_device_def example_env_def example_client_def ListenerClient_init_def
        is_connected_def close_def unreal_client_send_message_def send_message_def Let_def
        on_listener_disconnect_def emit_def py_str_opt_def)

subsection \<open>The confirmation of a start\<close>

text \<open>
  A complete frame: received data without a terminator, followed by the terminator. The
  buffer with the data is decoded, the message is routed inside the \<^verbatim>\<open>try\<close>, and the
  buffer is cleared.
\<close>

lemma process_received_data_frame:
  "CHR 0x00 \<notin> set data \<Longrightarrow>
     process_received_data E d buffer (data @ [CHR 0x00]) =
       (case decode_message E (buffer @ data) of
          Inl e \<Rightarrow> (Raised e d, buffer @ data)
        | Inr message \<Rightarrow> (Returned (route_and_catch E d message), []))"
  by (induction data arbitrary: buffer) (auto split: sum.splits)

text \<open>
  A start-confirmed message: it has a command, it is not an acknowledgement of a
  command, its field \<^verbatim>\<open>program started\<close> is true, and its two identifiers are texts of
  UUIDs.
\<close>

lemma route_message_started:
  assumes "m_command message = Some command"
    and "m_command_accepted message = None"
    and "m_program_started message = Some True"
    and "m_message_id message = Some message_id_text"
    and "UUID E message_id_text = Inr message_id"
    and "m_program_id message = Some program_id_text"
    and "UUID E program_id_text = Inr program_id"
  shows "route_message E device_slots message
           = Inr (Some (call_program_started program_id message_id))"
  using assms by (simp add: route_message_def bind_err_def py_item_def device_slots_def)

text \<open>
  C6. A command identifier is recorded in the start queue, and the worker receives the
  frame of a start-confirmed message that carries it. The message is routed to the slot
  of \<^verbatim>\<open>on_program_started\<close> and to no other; the handler returns, the entry of the
  identifier is removed from the start queue and the program is registered as running.
  When the worker receives the same frame again, the handler raises \<^verbatim>\<open>KeyError\<close> on the
  missing entry; \<^verbatim>\<open>process_received_data\<close> still returns, and the device differs from
  the one before only by the error entry logged for the exception.
\<close>

theorem program_started_once:
  assumes "remote_programs_start_queue d message_id = Some program_name"
    and "CHR 0x00 \<notin> set data"
    and "decode_message E data = Inr message"
    and "m_command message = Some command"
    and "m_command_accepted message = None"
    and "m_program_started message = Some True"
    and "m_message_id message = Some message_id_text"
    and "UUID E message_id_text = Inr message_id"
    and "m_program_id message = Some program_id_text"
    and "UUID E program_id_text = Inr program_id"
  shows "route_message E device_slots message
           = Inr (Some (call_program_started program_id message_id))
    \<and> on_program_started E d program_id message_id
         = Returned (final (on_program_started E d program_id message_id))
    \<and> process_received_data E d [] (data @ [CHR 0x00])
         = (Returned (final (on_program_started E d program_id message_id)), [])
    \<and> remote_programs_start_queue (final (on_program_started E d program_id message_id))
         = (remote_programs_start_queue d)(message_id := None)
    \<and> running_remote_program_names (final (on_program_started E d program_id message_id)) program_id
         = Some program_name
    \<and> running_remote_program_ids (final (on_program_started E d program_id message_id)) program_name
         = Some program_id
    \<and> on_program_started E (final (on_program_started E d program_id message_id)) program_id message_id
         = Raised KeyError (final (on_program_started E d program_id message_id))
    \<and> process_received_data E (final (on_program_started E d program_id message_id)) []
           (data @ [CHR 0x00])
         = (Returned
              (log_to (final (on_program_started E d program_id message_id)) ERROR
                 (''Error while parsing message: '' @ [CHR 0x0A, CHR 0x0A]
                  @ ''=== Traceback BEGIN ==='' @ [CHR 0x0A]
                  @ ''KeyError'' @ ''=== Traceback END ==='' @ [CHR 0x0A])),
            [])"
proof -
  have route: "route_message E device_slots message
                 = Inr (Some (call_program_started program_id message_id))"
    using assms(4-10) by (rule route_message_started)
  obtain d1 where first: "on_program_started E d program_id message_id = Returned d1"
    using assms(1) by (simp add: on_program_started_def Let_def)
  have queue: "remote_programs_start_queue d1 = (remote_programs_start_queue d)(message_id := None)"
    and names: "running_remote_program_names d1 program_id = Some program_name"
    and ids: "running_remote_program_ids d1 program_name = Some program_id"
    using assms(1) first
    by (auto simp add: on_program_started_def Let_def log_to_def emit_def)
  have second: "on_program_started E d1 program_id message_id = Raised KeyError d1"
    using queue by (simp add: on_program_started_def)
  have catch1: "route_and_catch E d message = d1"
    using route first by (simp add: route_and_catch_def)
  have catch2: "route_and_catch E d1 message
                  = log_to d1 ERROR
                      (''Error while parsing message: '' @ [CHR 0x0A, CHR 0x0A]
                       @ ''=== Traceback BEGIN ==='' @ [CHR 0x0A]
                       @ ''KeyError'' @ ''=== Traceback END ==='' @ [CHR 0x0A])"
    using route second by (simp add: route_and_catch_def)
  have frame1: "process_received_data E d [] (data @ [CHR 0x00]) = (Returned d1, [])"
    using process_received_data_frame [OF assms(2), of E d "[]"] assms(3) catch1 by simp
  have frame2: "process_received_data E d1 [] (data @ [CHR 0x00])
                  = (Returned (route_and_catch E d1 message), [])"
    using process_received_data_frame [OF assms(2), of E d1 "[]"] assms(3) by simp
  show ?thesis
    using route frame1 queue names ids second frame2 catch2 by (simp add: first)
qed

text \<open>
  The theorem at the example codec: the device waits for the start of the launch it sent
  as command \<open>100\<close>, and the frame \<^verbatim>\<open>started\<close> arrives twice. The first makes the device
  \<^verbatim>\<open>OPEN\<close> with program \<open>7\<close> registered and the entry of \<open>100\<close> removed; the second
  only adds the error entry.
\<close>

theorem program_started_once_witness:
  "remote_programs_start_queue example_launching_device 100 = Some ''unreal''
   \<and> CHR 0x00 \<notin> set ''started''
   \<and> decode_message example_codec_env ''started'' = Inr example_started_message
   \<and> m_command example_started_message = Some ''start''
   \<and> m_command_accepted example_started_message = None
   \<and> m_program_started example_started_message = Some True
   \<and> m_message_id example_started_message = Some ''mid-100''
   \<and> UUID example_codec_env ''mid-100'' = Inr 100
   \<and> m_program_id example_started_message = Some ''pid-7''
   \<and> UUID example_codec_env ''pid-7'' = Inr 7
   \<and> process_received_data example_codec_env example_launching_device [] (''started'' @ [CHR 0x00])
       = (Returned (final (on_program_started example_codec_env example_launching_device 7 100)), [])
   \<and> status (final (on_program_started example_codec_env example_launching_device 7 100)) = OPEN
   \<and> remote_programs_start_queue
        (final (on_program_started example_codec_env example_launching_device 7 100)) 100 = None
   \<and> running_remote_program_ids
        (final (on_program_started example_codec_env example_launching_device 7 100)) ''unreal''
       = Some 7
   \<and> logger (final (on_program_started example_codec_env example_launching_device 7 100))
       = [(INFO, ''node1: unreal with id 7 was successfully started'')]
   \<and> logger (final (fst (process_received_data example_codec_env
        (final (on_program_started example_codec_env example_launching_device 7 100)) []
        (''started'' @ [CHR 0x00]))))
       = [(INFO, ''node1: unreal with id 7 was successfully started''),
          (ERROR, ''Error while parsing message: '' @ [CHR 0x0A, CHR 0x0A]
                  @ ''=== Traceback BEGIN ==='' @ [CHR 0x0A]
                  @ ''KeyError'' @ ''=== Traceback END ==='' @ [CHR 0x0A])]"
  using program_started_once [where d = example_launching_device and message_id = 100
          and program_name = "''unreal''" and data = "''started''" and E = example_codec_env
          and message = example_started_message and command = "''start''"
          and message_id_text = "''mid-100''" and program_id_text = "''pid-7''"
          and program_id = 7]
  by (simp add: example_launching_device_def example_device_def example_codec_env_def
        example_env_def example_started_message_def on_program_started_def Let_def
        log_to_def emit_def)

end
